theory Spec2Isabelle
  imports Main "HOL-Library.Word"
begin

unbundle bit_operations_syntax

section \<open>Machine types and constants\<close>

type_synonym u8 = "8 word"
type_synonym u32 = "32 word"
type_synonym u64 = "64 word"

text \<open>A link is one 64-bit word: tag in the top nibble, ext in the next 24 bits, val in the
  low 32 bits (\<^verbatim>\<open>typedef u64 Ptr\<close>).\<close>

type_synonym Ptr = u64

definition HEAP_SIZE :: u64 where "HEAP_SIZE = 4294967296"
definition MAX_WORKERS :: u64 where "MAX_WORKERS = 12"
definition MAX_DUPS :: u64 where "MAX_DUPS = 16777216"
definition MAX_ARITY :: u64 where "MAX_ARITY = 256"

text \<open>\<^verbatim>\<open>HEAP_SIZE/sizeof(u64)/MAX_WORKERS\<close>, with \<^verbatim>\<open>sizeof(u64) = 8\<close>.\<close>

definition MEM_SPACE :: u64 where "MEM_SPACE = HEAP_SIZE div 8 div MAX_WORKERS"

definition DIRS_MCAP :: u64 where "DIRS_MCAP = 0x10000"

definition VAL :: u64 where "VAL = 1"
definition EXT :: u64 where "EXT = 0x100000000"
definition TAG :: u64 where "TAG = 0x1000000000000000"
definition NUM_MASK :: u64 where "NUM_MASK = 0xFFFFFFFFFFFFFFF"

definition DP0 :: u64 where "DP0 = 0x0"
definition DP1 :: u64 where "DP1 = 0x1"
definition VAR :: u64 where "VAR = 0x2"
definition ARG :: u64 where "ARG = 0x3"
definition ERA :: u64 where "ERA = 0x4"
definition LAM :: u64 where "LAM = 0x5"
definition APP :: u64 where "APP = 0x6"
definition SUP_tag :: u64 where "SUP_tag = 0x7"
definition CTR :: u64 where "CTR = 0x8"
definition FUN :: u64 where "FUN = 0x9"
definition OP2 :: u64 where "OP2 = 0xA"
definition NUM :: u64 where "NUM = 0xB"
definition FLO :: u64 where "FLO = 0xC"
definition NIL :: u64 where "NIL = 0xF"

text \<open>The sixteen operator codes. \<^verbatim>\<open>AND\<close>, \<^verbatim>\<open>OR\<close> and \<^verbatim>\<open>XOR\<close> are taken by the bit
  operations of HOL, so these three carry a suffix.\<close>

definition ADD :: u64 where "ADD = 0x0"
definition SUB :: u64 where "SUB = 0x1"
definition MUL :: u64 where "MUL = 0x2"
definition DIV :: u64 where "DIV = 0x3"
definition MOD :: u64 where "MOD = 0x4"
definition AND_op :: u64 where "AND_op = 0x5"
definition OR_op :: u64 where "OR_op = 0x6"
definition XOR_op :: u64 where "XOR_op = 0x7"
definition SHL :: u64 where "SHL = 0x8"
definition SHR :: u64 where "SHR = 0x9"
definition LTN :: u64 where "LTN = 0xA"
definition LTE :: u64 where "LTE = 0xB"
definition EQL :: u64 where "EQL = 0xC"
definition GTE :: u64 where "GTE = 0xD"
definition GTN :: u64 where "GTN = 0xE"
definition NEQ :: u64 where "NEQ = 0xF"

text \<open>Generated constructor ids.\<close>

definition GENTREE :: u64 where "GENTREE = 29"
definition FFT :: u64 where "FFT = 32"
definition MAIN :: u64 where "MAIN = 28"
definition ADDRIGHTLEAF :: u64 where "ADDRIGHTLEAF = 33"
definition ADDLEFTLEAF :: u64 where "ADDLEFTLEAF = 34"

section \<open>Failures as values\<close>

text \<open>The runtime has no error returns. What it has are operations whose behaviour C leaves
  undefined; each is a \<open>Crash\<close> of the model. \<open>Timeout\<close> is the model running out of fuel in a
  loop or recursion that the C code does not bound.\<close>

datatype error =
    DivByZero           \<comment> \<open>\<^verbatim>\<open>a / 0\<close> or \<^verbatim>\<open>a % 0\<close>\<close>
  | ShiftTooLarge       \<comment> \<open>shift of a 64-bit value by 64 or more\<close>
  | IndexOutOfBounds    \<comment> \<open>index beyond a fixed-size array\<close>
  | BufferOverflow      \<comment> \<open>store beyond the caller's output buffer\<close>

datatype 'a outcome = Ok 'a | Crash error | Timeout

fun bnd :: "'a outcome \<Rightarrow> ('a \<Rightarrow> 'b outcome) \<Rightarrow> 'b outcome" where
  "bnd (Ok x) f = f x"
| "bnd (Crash e) f = Crash e"
| "bnd Timeout f = Timeout"

section \<open>Stacks\<close>

text \<open>A \<^verbatim>\<open>Stk\<close> is a growable array; the list holds \<^verbatim>\<open>data[0 .. size)\<close>, bottom first.
  \<^verbatim>\<open>stk_pop\<close> returns \<^verbatim>\<open>-1\<close> on the empty stack.\<close>

type_synonym Stk = "u64 list"

definition stk_init :: Stk where
  "stk_init = []"

definition stk_push :: "Stk \<Rightarrow> u64 \<Rightarrow> Stk" where
  "stk_push stack v = stack @ [v]"

definition stk_pop :: "Stk \<Rightarrow> u64 \<times> Stk" where
  "stk_pop stack = (if stack \<noteq> [] then (last stack, butlast stack) else (- 1, stack))"

fun stk_find_from :: "u64 \<Rightarrow> Stk \<Rightarrow> u64 \<Rightarrow> u64" where
  "stk_find_from i [] v = - 1"
| "stk_find_from i (x # xs) v = (if x = v then i else stk_find_from (i + 1) xs v)"

definition stk_find :: "Stk \<Rightarrow> u64 \<Rightarrow> u64" where
  "stk_find stk v = stk_find_from 0 stk v"

section \<open>Link codec\<close>

definition Var :: "u64 \<Rightarrow> Ptr" where "Var pos = (VAR * TAG) OR pos"
definition Dp0 :: "u64 \<Rightarrow> u64 \<Rightarrow> Ptr" where "Dp0 col pos = (DP0 * TAG) OR (col * EXT) OR pos"
definition Dp1 :: "u64 \<Rightarrow> u64 \<Rightarrow> Ptr" where "Dp1 col pos = (DP1 * TAG) OR (col * EXT) OR pos"
definition Arg :: "u64 \<Rightarrow> Ptr" where "Arg pos = (ARG * TAG) OR pos"
definition Era :: Ptr where "Era = ERA * TAG"
definition Lam :: "u64 \<Rightarrow> Ptr" where "Lam pos = (LAM * TAG) OR pos"
definition App :: "u64 \<Rightarrow> Ptr" where "App pos = (APP * TAG) OR pos"
definition Par :: "u64 \<Rightarrow> u64 \<Rightarrow> Ptr" where "Par col pos = (SUP_tag * TAG) OR (col * EXT) OR pos"
definition Op2 :: "u64 \<Rightarrow> u64 \<Rightarrow> Ptr" where "Op2 ope pos = (OP2 * TAG) OR (ope * EXT) OR pos"
definition Num :: "u64 \<Rightarrow> Ptr" where "Num v = (NUM * TAG) OR (v AND NUM_MASK)"

text \<open>\<^verbatim>\<open>Ctr\<close> and \<^verbatim>\<open>Cal\<close> take the arity and ignore it.\<close>

definition Ctr :: "u64 \<Rightarrow> u64 \<Rightarrow> u64 \<Rightarrow> Ptr" where
  "Ctr ari func pos = (CTR * TAG) OR (func * EXT) OR pos"
definition Cal :: "u64 \<Rightarrow> u64 \<Rightarrow> u64 \<Rightarrow> Ptr" where
  "Cal ari func pos = (FUN * TAG) OR (func * EXT) OR pos"

definition get_tag :: "Ptr \<Rightarrow> u64" where "get_tag lnk = lnk div TAG"
definition get_ext :: "Ptr \<Rightarrow> u64" where "get_ext lnk = (lnk div EXT) AND 0xFFFFFF"
definition get_val :: "Ptr \<Rightarrow> u64" where "get_val lnk = lnk AND 0xFFFFFFFF"
definition get_num :: "Ptr \<Rightarrow> u64" where "get_num lnk = lnk AND 0xFFFFFFFFFFFFFFF"
definition get_loc :: "Ptr \<Rightarrow> u64 \<Rightarrow> u64" where "get_loc lnk arg = get_val lnk + arg"

section \<open>Workers and the heap\<close>

text \<open>\<^verbatim>\<open>node\<close> is the heap the worker's pointer refers to, \<^verbatim>\<open>msize\<close> the C field \<^verbatim>\<open>size\<close>
  (the bump frontier, relative to the worker's partition). \<^verbatim>\<open>free\<close> is the array of
  \<^verbatim>\<open>MAX_ARITY\<close> free-lists; the functions below check the index against \<^verbatim>\<open>MAX_ARITY\<close>
  before they use it. \<^verbatim>\<open>aris\<close> is the memory behind the arity-table pointer, of which the
  code reads only the first \<^verbatim>\<open>funs\<close> entries.\<close>

record Worker =
  tid :: u64
  node :: "u64 \<Rightarrow> Ptr"
  msize :: u64
  free :: "u64 \<Rightarrow> Stk"
  cost :: u64
  dups :: u64
  aris :: "u64 \<Rightarrow> u64"
  funs :: u64

definition ask_ari :: "Worker \<Rightarrow> Ptr \<Rightarrow> u64" where
  "ask_ari mem lnk = (let fid = get_ext lnk in if fid < funs mem then aris mem fid else 0)"

definition ask_lnk :: "Worker \<Rightarrow> u64 \<Rightarrow> Ptr" where
  "ask_lnk mem loc = node mem loc"

definition ask_arg :: "Worker \<Rightarrow> Ptr \<Rightarrow> u64 \<Rightarrow> Ptr" where
  "ask_arg mem term arg = ask_lnk mem (get_loc term arg)"

text \<open>\<^verbatim>\<open>link\<close> returns its argument \<^verbatim>\<open>lnk\<close>; the model returns the worker it leaves.\<close>

definition link :: "Worker \<Rightarrow> u64 \<Rightarrow> Ptr \<Rightarrow> Worker" where
  "link mem loc lnk =
     (let mem1 = mem\<lparr>node := (node mem)(loc := lnk)\<rparr> in
      if get_tag lnk \<le> VAR
      then mem1\<lparr>node := (node mem1)(get_loc lnk (if get_tag lnk = DP1 then 1 else 0) := Arg loc)\<rparr>
      else mem1)"

definition alloc :: "Worker \<Rightarrow> u64 \<Rightarrow> (u64 \<times> Worker) outcome" where
  "alloc mem sz =
     (if sz = 0 then Ok (0, mem)
      else if \<not> sz < MAX_ARITY then Crash IndexOutOfBounds
      else
        let (reuse, stk) = stk_pop (free mem sz);
            mem1 = mem\<lparr>free := (free mem)(sz := stk)\<rparr>
        in if reuse \<noteq> - 1 then Ok (reuse, mem1)
           else let loc = msize mem1
                in Ok (tid mem1 * MEM_SPACE + loc, mem1\<lparr>msize := msize mem1 + sz\<rparr>))"

definition clear :: "Worker \<Rightarrow> u64 \<Rightarrow> u64 \<Rightarrow> Worker outcome" where
  "clear mem loc sz =
     (if \<not> sz < MAX_ARITY then Crash IndexOutOfBounds
      else Ok (mem\<lparr>free := (free mem)(sz := stk_push (free mem sz) loc)\<rparr>))"

section \<open>Loops over indices\<close>

text \<open>\<^verbatim>\<open>for (u64 i = 0; i < n; ++i)\<close> runs its body on the indices below \<^verbatim>\<open>n\<close> in order and
  stops at the first failure.\<close>

definition indices :: "u64 \<Rightarrow> u64 list" where
  "indices n = map of_nat [0 ..< unat n]"

fun for_each :: "u64 list \<Rightarrow> 's \<Rightarrow> (u64 \<Rightarrow> 's \<Rightarrow> 's outcome) \<Rightarrow> 's outcome" where
  "for_each [] s f = Ok s"
| "for_each (i # rest) s f = bnd (f i s) (\<lambda>s'. for_each rest s' f)"

section \<open>Garbage collection, substitution, colours\<close>

text \<open>\<^verbatim>\<open>collect\<close> recurses over the term; on a cyclic graph the C recursion does not end, so the
  model counts the depth down from a fuel.\<close>

primrec collect :: "nat \<Rightarrow> Worker \<Rightarrow> Ptr \<Rightarrow> Worker outcome" where
  "collect 0 mem term = Timeout"
| "collect (Suc n) mem term =
     (if get_tag term = DP0 then Ok (link mem (get_loc term 0) Era)
      else if get_tag term = DP1 then Ok (link mem (get_loc term 1) Era)
      else if get_tag term = VAR then Ok (link mem (get_loc term 0) Era)
      else if get_tag term = LAM then
        (let mem1 = (if get_tag (ask_arg mem term 0) \<noteq> ERA
                     then link mem (get_loc (ask_arg mem term 0) 0) Era else mem)
         in bnd (collect n mem1 (ask_arg mem1 term 1)) (\<lambda>mem2.
            clear mem2 (get_loc term 0) 2))
      else if get_tag term = APP \<or> get_tag term = SUP_tag \<or> get_tag term = OP2 then
        bnd (collect n mem (ask_arg mem term 0)) (\<lambda>mem1.
        bnd (collect n mem1 (ask_arg mem1 term 1)) (\<lambda>mem2.
        clear mem2 (get_loc term 0) 2))
      else if get_tag term = NUM then Ok mem
      else if get_tag term = CTR \<or> get_tag term = FUN then
        (let arity = ask_ari mem term
         in bnd (for_each (indices arity) mem (\<lambda>i m. collect n m (ask_arg m term i))) (\<lambda>mem1.
            clear mem1 (get_loc term 0) arity))
      else Ok mem)"

definition inc_cost :: "Worker \<Rightarrow> Worker" where
  "inc_cost mem = mem\<lparr>cost := cost mem + 1\<rparr>"

text \<open>\<^verbatim>\<open>mem->dups++ & 0xFFFFFF\<close>: the colour is the counter before the increment.\<close>

definition gen_dupk :: "Worker \<Rightarrow> u64 \<times> Worker" where
  "gen_dupk mem = (dups mem AND 0xFFFFFF, mem\<lparr>dups := dups mem + 1\<rparr>)"

definition subst :: "nat \<Rightarrow> Worker \<Rightarrow> Ptr \<Rightarrow> Ptr \<Rightarrow> Worker outcome" where
  "subst n mem lnk v =
     (if get_tag lnk \<noteq> ERA then Ok (link mem (get_loc lnk 0) v) else collect n mem v)"

text \<open>\<^verbatim>\<open>cal_par\<close> returns the fan it has linked at \<^verbatim>\<open>host\<close>, with the worker.\<close>

definition cal_par :: "Worker \<Rightarrow> u64 \<Rightarrow> Ptr \<Rightarrow> Ptr \<Rightarrow> u64 \<Rightarrow> (Ptr \<times> Worker) outcome" where
  "cal_par mem0 host term argn n =
     (let mem = inc_cost mem0;
          arit = ask_ari mem term;
          func = get_ext term;
          fun0 = get_loc term 0
      in bnd (alloc mem arit) (\<lambda>(fun1, mem).
         let par0 = get_loc argn 0
         in bnd (for_each (indices arit) mem (\<lambda>i mem.
              if i \<noteq> n then
                bnd (alloc mem 3) (\<lambda>(leti, mem).
                  let argi = ask_arg mem term i;
                      mem = link mem (fun0 + i) (Dp0 (get_ext argn) leti);
                      mem = link mem (fun1 + i) (Dp1 (get_ext argn) leti);
                      mem = link mem (leti + 2) argi
                  in Ok mem)
              else
                (let mem = link mem (fun0 + i) (ask_arg mem argn 0);
                     mem = link mem (fun1 + i) (ask_arg mem argn 1)
                 in Ok mem))) (\<lambda>mem.
         let mem = link mem (par0 + 0) (Cal arit func fun0);
             mem = link mem (par0 + 1) (Cal arit func fun1);
             done = Par (get_ext argn) par0;
             mem = link mem host done
         in Ok (done, mem))))"

section \<open>The interaction rules of \<^verbatim>\<open>reduce\<close>\<close>

text \<open>Each rule is the block of statements \<^verbatim>\<open>reduce\<close> runs in its ascent phase, in the order of
  the source; reads of the heap happen where the source has them. The host is passed as the
  64-bit value the source hands to \<^verbatim>\<open>link\<close>. The fuel is the depth allowed to \<^verbatim>\<open>collect\<close>.\<close>

definition app_lam :: "nat \<Rightarrow> Worker \<Rightarrow> u64 \<Rightarrow> Ptr \<Rightarrow> Ptr \<Rightarrow> Worker outcome" where
  "app_lam n mem0 host term arg0 =
     (let mem = inc_cost mem0
      in bnd (subst n mem (ask_arg mem arg0 0) (ask_arg mem term 1)) (\<lambda>mem.
         let mem = link mem host (ask_arg mem arg0 1)
         in bnd (clear mem (get_loc term 0) 2) (\<lambda>mem.
            clear mem (get_loc arg0 0) 2)))"

definition app_sup :: "Worker \<Rightarrow> u64 \<Rightarrow> Ptr \<Rightarrow> Ptr \<Rightarrow> Worker outcome" where
  "app_sup mem0 host term arg0 =
     (let mem = inc_cost mem0;
          app0 = get_loc term 0;
          app1 = get_loc arg0 0
      in bnd (alloc mem 3) (\<lambda>(let0, mem).
         bnd (alloc mem 2) (\<lambda>(par0, mem).
         let mem = link mem (let0 + 2) (ask_arg mem term 1);
             mem = link mem (app0 + 1) (Dp0 (get_ext arg0) let0);
             mem = link mem (app0 + 0) (ask_arg mem arg0 0);
             mem = link mem (app1 + 0) (ask_arg mem arg0 1);
             mem = link mem (app1 + 1) (Dp1 (get_ext arg0) let0);
             mem = link mem (par0 + 0) (App app0);
             mem = link mem (par0 + 1) (App app1);
             done = Par (get_ext arg0) par0;
             mem = link mem host done
         in Ok mem)))"

definition dup_lam :: "nat \<Rightarrow> Worker \<Rightarrow> u64 \<Rightarrow> Ptr \<Rightarrow> Ptr \<Rightarrow> Worker outcome" where
  "dup_lam n mem0 host term arg0 =
     (let mem = inc_cost mem0;
          let0 = get_loc term 0;
          par0 = get_loc arg0 0
      in bnd (alloc mem 2) (\<lambda>(lam0, mem).
         bnd (alloc mem 2) (\<lambda>(lam1, mem).
         let mem = link mem (let0 + 2) (ask_arg mem arg0 1);
             mem = link mem (par0 + 1) (Var lam1);
             arg0_arg_0 = ask_arg mem arg0 0;
             mem = link mem (par0 + 0) (Var lam0)
         in bnd (subst n mem arg0_arg_0 (Par (get_ext term) par0)) (\<lambda>mem.
         let term_arg_0 = ask_arg mem term 0;
             mem = link mem (lam0 + 1) (Dp0 (get_ext term) let0)
         in bnd (subst n mem term_arg_0 (Lam lam0)) (\<lambda>mem.
         let term_arg_1 = ask_arg mem term 1;
             mem = link mem (lam1 + 1) (Dp1 (get_ext term) let0)
         in bnd (subst n mem term_arg_1 (Lam lam1)) (\<lambda>mem.
         let done = Lam (if get_tag term = DP0 then lam0 else lam1);
             mem = link mem host done
         in Ok mem))))))"

definition dup_sup_same :: "nat \<Rightarrow> Worker \<Rightarrow> u64 \<Rightarrow> Ptr \<Rightarrow> Ptr \<Rightarrow> Worker outcome" where
  "dup_sup_same n mem0 host term arg0 =
     (let mem = inc_cost mem0
      in bnd (subst n mem (ask_arg mem term 0) (ask_arg mem arg0 0)) (\<lambda>mem.
         bnd (subst n mem (ask_arg mem term 1) (ask_arg mem arg0 1)) (\<lambda>mem.
         let mem = link mem host (ask_arg mem arg0 (if get_tag term = DP0 then 0 else 1))
         in bnd (clear mem (get_loc term 0) 3) (\<lambda>mem.
            clear mem (get_loc arg0 0) 2))))"

definition dup_sup_diff :: "nat \<Rightarrow> Worker \<Rightarrow> u64 \<Rightarrow> Ptr \<Rightarrow> Ptr \<Rightarrow> Worker outcome" where
  "dup_sup_diff n mem0 host term arg0 =
     (let mem = inc_cost mem0
      in bnd (alloc mem 2) (\<lambda>(par0, mem).
         let let0 = get_loc term 0;
             par1 = get_loc arg0 0
         in bnd (alloc mem 3) (\<lambda>(let1, mem).
         let mem = link mem (let0 + 2) (ask_arg mem arg0 0);
             mem = link mem (let1 + 2) (ask_arg mem arg0 1);
             term_arg_0 = ask_arg mem term 0;
             term_arg_1 = ask_arg mem term 1;
             mem = link mem (par1 + 0) (Dp1 (get_ext term) let0);
             mem = link mem (par1 + 1) (Dp1 (get_ext term) let1);
             mem = link mem (par0 + 0) (Dp0 (get_ext term) let0);
             mem = link mem (par0 + 1) (Dp0 (get_ext term) let1)
         in bnd (subst n mem term_arg_0 (Par (get_ext arg0) par0)) (\<lambda>mem.
            bnd (subst n mem term_arg_1 (Par (get_ext arg0) par1)) (\<lambda>mem.
            let done = Par (get_ext arg0) (if get_tag term = DP0 then par0 else par1);
                mem = link mem host done
            in Ok mem)))))"

definition dup_num :: "nat \<Rightarrow> Worker \<Rightarrow> u64 \<Rightarrow> Ptr \<Rightarrow> Ptr \<Rightarrow> Worker outcome" where
  "dup_num n mem0 host term arg0 =
     (let mem = inc_cost mem0
      in bnd (subst n mem (ask_arg mem term 0) arg0) (\<lambda>mem.
         bnd (subst n mem (ask_arg mem term 1) arg0) (\<lambda>mem.
         bnd (clear mem (get_loc term 0) 3) (\<lambda>mem.
         Ok (link mem host arg0)))))"

definition dup_ctr :: "nat \<Rightarrow> Worker \<Rightarrow> u64 \<Rightarrow> Ptr \<Rightarrow> Ptr \<Rightarrow> Worker outcome" where
  "dup_ctr n mem0 host term arg0 =
     (let mem = inc_cost mem0;
          func = get_ext arg0;
          arit = ask_ari mem arg0
      in if arit = 0 then
           bnd (subst n mem (ask_arg mem term 0) (Ctr 0 func 0)) (\<lambda>mem.
           bnd (subst n mem (ask_arg mem term 1) (Ctr 0 func 0)) (\<lambda>mem.
           bnd (clear mem (get_loc term 0) 3) (\<lambda>mem.
           Ok (link mem host (Ctr 0 func 0)))))
         else
           (let ctr0 = get_loc arg0 0
            in bnd (alloc mem arit) (\<lambda>(ctr1, mem).
               bnd (for_each (indices (arit - 1)) mem (\<lambda>i mem.
                 bnd (alloc mem 3) (\<lambda>(leti, mem).
                   let mem = link mem (leti + 2) (ask_arg mem arg0 i);
                       mem = link mem (ctr0 + i) (Dp0 (get_ext term) leti);
                       mem = link mem (ctr1 + i) (Dp1 (get_ext term) leti)
                   in Ok mem))) (\<lambda>mem.
               let leti = get_loc term 0;
                   mem = link mem (leti + 2) (ask_arg mem arg0 (arit - 1));
                   term_arg_0 = ask_arg mem term 0;
                   mem = link mem (ctr0 + arit - 1) (Dp0 (get_ext term) leti)
               in bnd (subst n mem term_arg_0 (Ctr arit func ctr0)) (\<lambda>mem.
               let term_arg_1 = ask_arg mem term 1;
                   mem = link mem (ctr1 + arit - 1) (Dp1 (get_ext term) leti)
               in bnd (subst n mem term_arg_1 (Ctr arit func ctr1)) (\<lambda>mem.
               let done = Ctr arit func (if get_tag term = DP0 then ctr0 else ctr1);
                   mem = link mem host done
               in Ok mem))))))"

definition dup_era :: "nat \<Rightarrow> Worker \<Rightarrow> u64 \<Rightarrow> Ptr \<Rightarrow> Worker outcome" where
  "dup_era n mem0 host term =
     (let mem = inc_cost mem0
      in bnd (subst n mem (ask_arg mem term 0) Era) (\<lambda>mem.
         bnd (subst n mem (ask_arg mem term 1) Era) (\<lambda>mem.
         let mem = link mem host Era
         in clear mem (get_loc term 0) 3)))"

text \<open>The arithmetic of OP2-NUM on the two 60-bit payloads, in 64-bit unsigned arithmetic.
  Division and remainder by zero and shifts by 64 or more have no defined result in C. An
  operator code above 15 matches no case and leaves \<^verbatim>\<open>c = 0\<close>.\<close>

definition op2_value :: "u64 \<Rightarrow> u64 \<Rightarrow> u64 \<Rightarrow> u64 outcome" where
  "op2_value ope a b =
     (if ope = ADD then Ok ((a + b) AND NUM_MASK)
      else if ope = SUB then Ok ((a - b) AND NUM_MASK)
      else if ope = MUL then Ok ((a * b) AND NUM_MASK)
      else if ope = DIV then (if b = 0 then Crash DivByZero else Ok ((a div b) AND NUM_MASK))
      else if ope = MOD then (if b = 0 then Crash DivByZero else Ok ((a mod b) AND NUM_MASK))
      else if ope = AND_op then Ok ((a AND b) AND NUM_MASK)
      else if ope = OR_op then Ok ((a OR b) AND NUM_MASK)
      else if ope = XOR_op then Ok ((a XOR b) AND NUM_MASK)
      else if ope = SHL then
        (if 64 \<le> b then Crash ShiftTooLarge else Ok (push_bit (unat b) a AND NUM_MASK))
      else if ope = SHR then
        (if 64 \<le> b then Crash ShiftTooLarge else Ok (drop_bit (unat b) a AND NUM_MASK))
      else if ope = LTN then Ok (if a < b then 1 else 0)
      else if ope = LTE then Ok (if a \<le> b then 1 else 0)
      else if ope = EQL then Ok (if a = b then 1 else 0)
      else if ope = GTE then Ok (if a \<ge> b then 1 else 0)
      else if ope = GTN then Ok (if a > b then 1 else 0)
      else if ope = NEQ then Ok (if a \<noteq> b then 1 else 0)
      else Ok 0)"

definition op2_num :: "Worker \<Rightarrow> u64 \<Rightarrow> Ptr \<Rightarrow> Ptr \<Rightarrow> Ptr \<Rightarrow> Worker outcome" where
  "op2_num mem0 host term arg0 arg1 =
     (let mem = inc_cost mem0;
          a = get_num arg0;
          b = get_num arg1
      in bnd (op2_value (get_ext term) a b) (\<lambda>c.
         let done = Num c
         in bnd (clear mem (get_loc term 0) 2) (\<lambda>mem.
            Ok (link mem host done))))"

definition op2_sup_0 :: "Worker \<Rightarrow> u64 \<Rightarrow> Ptr \<Rightarrow> Ptr \<Rightarrow> Ptr \<Rightarrow> Worker outcome" where
  "op2_sup_0 mem0 host term arg0 arg1 =
     (let mem = inc_cost mem0;
          op20 = get_loc term 0;
          op21 = get_loc arg0 0
      in bnd (alloc mem 3) (\<lambda>(let0, mem).
         bnd (alloc mem 2) (\<lambda>(par0, mem).
         let mem = link mem (let0 + 2) arg1;
             mem = link mem (op20 + 1) (Dp0 (get_ext arg0) let0);
             mem = link mem (op20 + 0) (ask_arg mem arg0 0);
             mem = link mem (op21 + 0) (ask_arg mem arg0 1);
             mem = link mem (op21 + 1) (Dp1 (get_ext arg0) let0);
             mem = link mem (par0 + 0) (Op2 (get_ext term) op20);
             mem = link mem (par0 + 1) (Op2 (get_ext term) op21);
             done = Par (get_ext arg0) par0;
             mem = link mem host done
         in Ok mem)))"

definition op2_sup_1 :: "Worker \<Rightarrow> u64 \<Rightarrow> Ptr \<Rightarrow> Ptr \<Rightarrow> Ptr \<Rightarrow> Worker outcome" where
  "op2_sup_1 mem0 host term arg0 arg1 =
     (let mem = inc_cost mem0;
          op20 = get_loc term 0;
          op21 = get_loc arg1 0
      in bnd (alloc mem 3) (\<lambda>(let0, mem).
         bnd (alloc mem 2) (\<lambda>(par0, mem).
         let mem = link mem (let0 + 2) arg0;
             mem = link mem (op20 + 0) (Dp0 (get_ext arg1) let0);
             mem = link mem (op20 + 1) (ask_arg mem arg1 0);
             mem = link mem (op21 + 1) (ask_arg mem arg1 1);
             mem = link mem (op21 + 0) (Dp1 (get_ext arg1) let0);
             mem = link mem (par0 + 0) (Op2 (get_ext term) op20);
             mem = link mem (par0 + 1) (Op2 (get_ext term) op21);
             done = Par (get_ext arg1) par0;
             mem = link mem host done
         in Ok mem)))"

section \<open>The generated rewrite rules\<close>

text \<open>The rule compiler inlines two blocks wherever a right-hand side copies a value or
  subtracts a constant; the model names them once. \<^verbatim>\<open>dup_copy\<close> returns the two projections of
  the copy, \<^verbatim>\<open>inline_sub\<close> the link of the difference.\<close>

definition dup_copy :: "Worker \<Rightarrow> Ptr \<Rightarrow> (Ptr \<times> Ptr \<times> Worker) outcome" where
  "dup_copy mem cpy =
     (if get_tag cpy = NUM then Ok (cpy, cpy, inc_cost mem)
      else bnd (alloc mem 3) (\<lambda>(dup, mem).
        let (col, mem) = gen_dupk mem;
            mem = link mem (dup + 2) cpy
        in Ok (Dp0 col dup, Dp1 col dup, mem)))"

definition inline_sub :: "Worker \<Rightarrow> Ptr \<Rightarrow> u64 \<Rightarrow> (Ptr \<times> Worker) outcome" where
  "inline_sub mem x k =
     (if get_tag x = NUM \<and> get_tag (Num k) = NUM
      then Ok (Num (get_num x - get_num (Num k)), inc_cost mem)
      else bnd (alloc mem 2) (\<lambda>(op2, mem).
        let mem = link mem (op2 + 0) x;
            mem = link mem (op2 + 1) (Num k)
        in Ok (Op2 SUB op2, mem)))"

text \<open>Every function below is one \<^verbatim>\<open>if\<close> block of a \<^verbatim>\<open>case\<close> of the second generated switch:
  the statements after the test, up to \<^verbatim>\<open>init = 1; continue;\<close>.\<close>

definition gentree_num01 :: "Worker \<Rightarrow> u64 \<Rightarrow> Ptr \<Rightarrow> Worker outcome" where
  "gentree_num01 mem0 host term =
     (let mem = inc_cost mem0;
          done = ask_arg mem term 1;
          mem = link mem host done
      in clear mem (get_loc term 0) 2)"

definition gentree_num2 :: "Worker \<Rightarrow> u64 \<Rightarrow> Ptr \<Rightarrow> Worker outcome" where
  "gentree_num2 mem0 host term =
     (let mem = inc_cost mem0
      in bnd (alloc mem 2) (\<lambda>(cal_0, mem).
         let mem = link mem (cal_0 + 0) (Num 2);
             mem = link mem (cal_0 + 1) (ask_arg mem term 1)
         in bnd (alloc mem 2) (\<lambda>(cal_1, mem).
         let mem = link mem (cal_1 + 0) (Num 1);
             mem = link mem (cal_1 + 1) (Cal 2 33 cal_0);
             done = Cal 2 34 cal_1;
             mem = link mem host done
         in clear mem (get_loc term 0) 2)))"

definition gentree_rec :: "Worker \<Rightarrow> u64 \<Rightarrow> Ptr \<Rightarrow> Worker outcome" where
  "gentree_rec mem0 host term =
     (let mem = inc_cost mem0;
          cpy_0 = ask_arg mem term 0
      in bnd (dup_copy mem cpy_0) (\<lambda>(dp0_1, dp1_2, mem).
         let cpy_5 = dp0_1
         in bnd (dup_copy mem cpy_5) (\<lambda>(dp0_6, dp1_7, mem).
         bnd (inline_sub mem dp1_2 2) (\<lambda>(ret_10, mem).
         bnd (inline_sub mem dp0_6 1) (\<lambda>(ret_12, mem).
         bnd (alloc mem 2) (\<lambda>(cal_14, mem).
         let mem = link mem (cal_14 + 0) dp1_7;
             mem = link mem (cal_14 + 1) (ask_arg mem term 1)
         in bnd (alloc mem 2) (\<lambda>(cal_15, mem).
         let mem = link mem (cal_15 + 0) ret_12;
             mem = link mem (cal_15 + 1) (Cal 2 33 cal_14)
         in bnd (alloc mem 2) (\<lambda>(cal_16, mem).
         let mem = link mem (cal_16 + 0) ret_10;
             mem = link mem (cal_16 + 1) (Cal 2 34 cal_15);
             done = Cal 2 29 cal_16;
             mem = link mem host done
         in clear mem (get_loc term 0) 2))))))))"

definition fft_leaf :: "Worker \<Rightarrow> u64 \<Rightarrow> Ptr \<Rightarrow> Worker outcome" where
  "fft_leaf mem0 host term =
     (let mem = inc_cost mem0
      in bnd (alloc mem 1) (\<lambda>(ctr_0, mem).
         let mem = link mem (ctr_0 + 0) (ask_arg mem (ask_arg mem term 0) 0);
             done = Ctr 1 31 ctr_0;
             mem = link mem host done
         in bnd (clear mem (get_loc term 0) 1) (\<lambda>mem.
            clear mem (get_loc (ask_arg mem term 0) 0) 1)))"

definition fft_both :: "Worker \<Rightarrow> u64 \<Rightarrow> Ptr \<Rightarrow> Worker outcome" where
  "fft_both mem0 host term =
     (let mem = inc_cost mem0;
          cpy_0 = ask_arg mem (ask_arg mem term 0) 1
      in bnd (dup_copy mem cpy_0) (\<lambda>(dp0_1, dp1_2, mem).
         let cpy_5 = ask_arg mem (ask_arg mem term 0) 0
         in bnd (dup_copy mem cpy_5) (\<lambda>(dp0_6, dp1_7, mem).
         bnd (alloc mem 1) (\<lambda>(cal_13, mem).
         let mem = link mem (cal_13 + 0) dp0_6;
             cpy_10 = Cal 1 32 cal_13
         in bnd (dup_copy mem cpy_10) (\<lambda>(dp0_11, dp1_12, mem).
         bnd (alloc mem 1) (\<lambda>(cal_16, mem).
         let mem = link mem (cal_16 + 0) dp0_1
         in bnd (alloc mem 2) (\<lambda>(ctr_20, mem).
         let mem = link mem (ctr_20 + 0) dp1_7;
             mem = link mem (ctr_20 + 1) dp1_2
         in bnd (alloc mem 1) (\<lambda>(ctr_21, mem).
         let mem = link mem (ctr_21 + 0) (Ctr 2 30 ctr_20);
             cpy_17 = Ctr 1 35 ctr_21
         in bnd (dup_copy mem cpy_17) (\<lambda>(dp0_18, dp1_19, mem).
         bnd (alloc mem 2) (\<lambda>(lam_24, mem).
         bnd (alloc mem 2) (\<lambda>(ctr_25, mem).
         let mem = link mem (ctr_25 + 0) dp0_18;
             mem = link mem (ctr_25 + 1) (Var lam_24);
             mem = link mem (lam_24 + 1) (Ctr 2 37 ctr_25)
         in bnd (alloc mem 2) (\<lambda>(ctr_26, mem).
         let mem = link mem (ctr_26 + 0) (Num 0);
             mem = link mem (ctr_26 + 1) dp1_19
         in bnd (alloc mem 2) (\<lambda>(ctr_27, mem).
         let mem = link mem (ctr_27 + 0) (Lam lam_24);
             mem = link mem (ctr_27 + 1) (Ctr 2 38 ctr_26)
         in bnd (alloc mem 2) (\<lambda>(lam_31, mem).
         bnd (alloc mem 2) (\<lambda>(lam_32, mem).
         bnd (alloc mem 2) (\<lambda>(ctr_33, mem).
         let mem = link mem (ctr_33 + 0) (Var lam_31);
             mem = link mem (ctr_33 + 1) (Var lam_32);
             mem = link mem (lam_32 + 1) (Ctr 2 40 ctr_33);
             mem = link mem (lam_31 + 1) (Lam lam_32)
         in bnd (alloc mem 3) (\<lambda>(ctr_34, mem).
         let mem = link mem (ctr_34 + 0) (Lam lam_31);
             mem = link mem (ctr_34 + 1) (Ctr 2 36 ctr_27);
             mem = link mem (ctr_34 + 2) (Cal 1 32 cal_16);
             cpy_28 = Ctr 3 39 ctr_34
         in bnd (dup_copy mem cpy_28) (\<lambda>(dp0_29, dp1_30, mem).
         bnd (alloc mem 2) (\<lambda>(lam_37, mem).
         bnd (alloc mem 2) (\<lambda>(lam_38, mem).
         bnd (alloc mem 2) (\<lambda>(ctr_39, mem).
         let mem = link mem (ctr_39 + 0) (Var lam_37);
             mem = link mem (ctr_39 + 1) (Var lam_38);
             mem = link mem (lam_38 + 1) (Ctr 2 41 ctr_39);
             mem = link mem (lam_37 + 1) (Lam lam_38)
         in bnd (alloc mem 3) (\<lambda>(ctr_40, mem).
         let mem = link mem (ctr_40 + 0) (Lam lam_37);
             mem = link mem (ctr_40 + 1) dp0_11;
             mem = link mem (ctr_40 + 2) dp0_29
         in bnd (alloc mem 2) (\<lambda>(lam_41, mem).
         bnd (alloc mem 2) (\<lambda>(lam_42, mem).
         bnd (alloc mem 2) (\<lambda>(ctr_43, mem).
         let mem = link mem (ctr_43 + 0) (Var lam_41);
             mem = link mem (ctr_43 + 1) (Var lam_42);
             mem = link mem (lam_42 + 1) (Ctr 2 42 ctr_43);
             mem = link mem (lam_41 + 1) (Lam lam_42)
         in bnd (alloc mem 3) (\<lambda>(ctr_44, mem).
         let mem = link mem (ctr_44 + 0) (Lam lam_41);
             mem = link mem (ctr_44 + 1) dp1_12;
             mem = link mem (ctr_44 + 2) dp1_30
         in bnd (alloc mem 2) (\<lambda>(ctr_45, mem).
         let mem = link mem (ctr_45 + 0) (Ctr 3 39 ctr_40);
             mem = link mem (ctr_45 + 1) (Ctr 3 39 ctr_44);
             done = Ctr 2 30 ctr_45;
             mem = link mem host done
         in bnd (clear mem (get_loc term 0) 1) (\<lambda>mem.
            clear mem (get_loc (ask_arg mem term 0) 0) 2))))))))))))))))))))))))))))"

definition main_rule :: "nat \<Rightarrow> Worker \<Rightarrow> u64 \<Rightarrow> Ptr \<Rightarrow> Worker outcome" where
  "main_rule n mem0 host term =
     (let mem = inc_cost mem0
      in bnd (alloc mem 1) (\<lambda>(ctr_0, mem).
         let mem = link mem (ctr_0 + 0) (Num 0)
         in bnd (alloc mem 1) (\<lambda>(ctr_1, mem).
         let mem = link mem (ctr_1 + 0) (Num 1)
         in bnd (alloc mem 2) (\<lambda>(ctr_2, mem).
         let mem = link mem (ctr_2 + 0) (Ctr 1 31 ctr_0);
             mem = link mem (ctr_2 + 1) (Ctr 1 31 ctr_1)
         in bnd (alloc mem 2) (\<lambda>(cal_3, mem).
         let mem = link mem (cal_3 + 0) (Num 1048);
             mem = link mem (cal_3 + 1) (Ctr 2 30 ctr_2)
         in bnd (alloc mem 1) (\<lambda>(cal_4, mem).
         let mem = link mem (cal_4 + 0) (Cal 2 29 cal_3);
             done = Cal 1 32 cal_4;
             mem = link mem host done
         in bnd (clear mem (get_loc term 0) 1) (\<lambda>mem.
            collect n mem (ask_arg mem term 0))))))))"

definition addrightleaf_leaf :: "Worker \<Rightarrow> u64 \<Rightarrow> Ptr \<Rightarrow> Worker outcome" where
  "addrightleaf_leaf mem0 host term =
     (let mem = inc_cost mem0
      in bnd (alloc mem 1) (\<lambda>(ctr_0, mem).
         let mem = link mem (ctr_0 + 0) (ask_arg mem (ask_arg mem term 1) 0)
         in bnd (alloc mem 1) (\<lambda>(ctr_1, mem).
         let mem = link mem (ctr_1 + 0) (ask_arg mem term 0)
         in bnd (alloc mem 2) (\<lambda>(ctr_2, mem).
         let mem = link mem (ctr_2 + 0) (Ctr 1 31 ctr_0);
             mem = link mem (ctr_2 + 1) (Ctr 1 31 ctr_1);
             done = Ctr 2 30 ctr_2;
             mem = link mem host done
         in bnd (clear mem (get_loc term 0) 2) (\<lambda>mem.
            clear mem (get_loc (ask_arg mem term 1) 0) 1)))))"

definition addrightleaf_both :: "Worker \<Rightarrow> u64 \<Rightarrow> Ptr \<Rightarrow> Worker outcome" where
  "addrightleaf_both mem0 host term =
     (let mem = inc_cost mem0
      in bnd (alloc mem 2) (\<lambda>(cal_0, mem).
         let mem = link mem (cal_0 + 0) (ask_arg mem term 0);
             mem = link mem (cal_0 + 1) (ask_arg mem (ask_arg mem term 1) 1)
         in bnd (alloc mem 2) (\<lambda>(ctr_1, mem).
         let mem = link mem (ctr_1 + 0) (ask_arg mem (ask_arg mem term 1) 0);
             mem = link mem (ctr_1 + 1) (Cal 2 33 cal_0);
             done = Ctr 2 30 ctr_1;
             mem = link mem host done
         in bnd (clear mem (get_loc term 0) 2) (\<lambda>mem.
            clear mem (get_loc (ask_arg mem term 1) 0) 2))))"

definition addleftleaf_leaf :: "Worker \<Rightarrow> u64 \<Rightarrow> Ptr \<Rightarrow> Worker outcome" where
  "addleftleaf_leaf mem0 host term =
     (let mem = inc_cost mem0
      in bnd (alloc mem 1) (\<lambda>(ctr_0, mem).
         let mem = link mem (ctr_0 + 0) (ask_arg mem term 0)
         in bnd (alloc mem 1) (\<lambda>(ctr_1, mem).
         let mem = link mem (ctr_1 + 0) (ask_arg mem (ask_arg mem term 1) 0)
         in bnd (alloc mem 2) (\<lambda>(ctr_2, mem).
         let mem = link mem (ctr_2 + 0) (Ctr 1 31 ctr_0);
             mem = link mem (ctr_2 + 1) (Ctr 1 31 ctr_1);
             done = Ctr 2 30 ctr_2;
             mem = link mem host done
         in bnd (clear mem (get_loc term 0) 2) (\<lambda>mem.
            clear mem (get_loc (ask_arg mem term 1) 0) 1)))))"

definition addleftleaf_both :: "Worker \<Rightarrow> u64 \<Rightarrow> Ptr \<Rightarrow> Worker outcome" where
  "addleftleaf_both mem0 host term =
     (let mem = inc_cost mem0
      in bnd (alloc mem 2) (\<lambda>(cal_0, mem).
         let mem = link mem (cal_0 + 0) (ask_arg mem term 0);
             mem = link mem (cal_0 + 1) (ask_arg mem (ask_arg mem term 1) 0)
         in bnd (alloc mem 2) (\<lambda>(ctr_1, mem).
         let mem = link mem (ctr_1 + 0) (Cal 2 34 cal_0);
             mem = link mem (ctr_1 + 1) (ask_arg mem (ask_arg mem term 1) 1);
             done = Ctr 2 30 ctr_1;
             mem = link mem host done
         in bnd (clear mem (get_loc term 0) 2) (\<lambda>mem.
            clear mem (get_loc (ask_arg mem term 1) 0) 2))))"

section \<open>The lock bit of a duplication node\<close>

text \<open>The descent through \<^verbatim>\<open>DP0\<close>/\<^verbatim>\<open>DP1\<close> takes \<^verbatim>\<open>((atomic_flag*)(mem->node + loc)) + 6\<close>: the
  one-byte flag at byte offset 6 of the word at \<^verbatim>\<open>loc\<close>, which on the little-endian targets of
  the runtime is bits 48 to 55 of that word. Test-and-set reports whether the byte was
  non-zero and leaves it 1; clear leaves it 0. The model runs one thread, so a flag found set
  stays set.\<close>

definition flag_mask :: u64 where
  "flag_mask = 0x00FF000000000000"

definition atomic_flag_test_and_set :: "Worker \<Rightarrow> u64 \<Rightarrow> bool \<times> Worker" where
  "atomic_flag_test_and_set mem loc =
     (let w = node mem loc
      in (w AND flag_mask \<noteq> 0,
          mem\<lparr>node := (node mem)(loc := (w AND NOT flag_mask) OR 0x0001000000000000)\<rparr>))"

definition atomic_flag_clear :: "Worker \<Rightarrow> u64 \<Rightarrow> Worker" where
  "atomic_flag_clear mem loc = mem\<lparr>node := (node mem)(loc := node mem loc AND NOT flag_mask)\<rparr>"

section \<open>\<^verbatim>\<open>reduce\<close>: the loop\<close>

text \<open>The state of the loop is the worker, the stack, \<^verbatim>\<open>init\<close> and the 32-bit \<^verbatim>\<open>host\<close>. The body
  of an iteration either executes \<^verbatim>\<open>continue\<close> or leaves the \<^verbatim>\<open>switch\<close> and reaches the pop at
  the end of the loop.\<close>

type_synonym rstate = "Worker \<times> Stk \<times> u64 \<times> u32"

datatype flow = Continue rstate | Break rstate

datatype step = Next rstate | Return Worker

text \<open>The first generated switch. Its cases have no \<^verbatim>\<open>break\<close>: a case whose test fails falls
  into the next one. \<open>entry\<close> is the position of the case the switch jumps to.\<close>

definition fun_descend :: "rstate \<Rightarrow> Ptr \<Rightarrow> flow" where
  "fun_descend s term =
     (case s of (mem, stack, init, host) \<Rightarrow>
        let func = get_ext term;
            ari = ask_ari mem term;
            entry = (if func = GENTREE then 0 else if func = FFT then 1 else if func = MAIN then 2
                     else if func = ADDRIGHTLEAF then 3 else if func = ADDLEFTLEAF then 4
                     else (5::nat))
        in if entry \<le> 0 \<and> ask_ari mem term = 2
             then Continue (mem, stk_push stack (ucast host), init, ucast (get_loc term 0))
           else if entry \<le> 1 \<and> ask_ari mem term = 1
             then Continue (mem, stk_push stack (ucast host), init, ucast (get_loc term 0))
           else if entry \<le> 2 \<and> ask_ari mem term = 1
             then Continue (mem, stack, 0, host)
           else if entry \<le> 3 \<and> ask_ari mem term = 2
             then Continue (mem, stk_push stack (ucast host), init, ucast (get_loc term 1))
           else if entry \<le> 4 \<and> ask_ari mem term = 2
             then Continue (mem, stk_push stack (ucast host), init, ucast (get_loc term 1))
           else Break s)"

definition descend :: "u64 \<Rightarrow> rstate \<Rightarrow> Ptr \<Rightarrow> flow" where
  "descend slen s term =
     (case s of (mem, stack, init, host) \<Rightarrow>
        if get_tag term = APP then
          Continue (mem, stk_push stack (ucast host), 1, ucast (get_loc term 0))
        else if get_tag term = DP0 \<or> get_tag term = DP1 then
          (let (was_set, mem1) = atomic_flag_test_and_set mem (get_loc term 0)
           in if was_set then Continue (mem1, stack, init, host)
              else if term \<noteq> ask_lnk mem1 (ucast host)
                then Continue (atomic_flag_clear mem1 (get_loc term 0), stack, init, host)
              else Continue (mem1, stk_push stack (ucast host), init, ucast (get_loc term 2)))
        else if get_tag term = OP2 then
          (if slen = 1 \<or> stack \<noteq> [] then
             Continue (mem, stk_push (stk_push stack (ucast host)) (get_loc term 0 OR 0x80000000),
                       init, ucast (get_loc term 1))
           else Break s)
        else if get_tag term = FUN then fun_descend s term
        else Break s)"

text \<open>The second generated switch; here every case ends in \<^verbatim>\<open>break\<close>.\<close>

definition fun_ascend :: "nat \<Rightarrow> rstate \<Rightarrow> Ptr \<Rightarrow> flow outcome" where
  "fun_ascend n s term =
     (case s of (mem, stack, init, host) \<Rightarrow>
        let func = get_ext term;
            redo = (\<lambda>mem. Ok (Continue (mem, stack, 1, host)))
        in if func = GENTREE then
             (if get_tag (ask_arg mem term 0) = SUP_tag then
                bnd (cal_par mem (ucast host) term (ask_arg mem term 0) 0) (\<lambda>(done, mem).
                  Ok (Continue (mem, stack, init, host)))
              else if get_tag (ask_arg mem term 0) = NUM \<and> get_num (ask_arg mem term 0) = 0 then
                bnd (gentree_num01 mem (ucast host) term) redo
              else if get_tag (ask_arg mem term 0) = NUM \<and> get_num (ask_arg mem term 0) = 1 then
                bnd (gentree_num01 mem (ucast host) term) redo
              else if get_tag (ask_arg mem term 0) = NUM \<and> get_num (ask_arg mem term 0) = 2 then
                bnd (gentree_num2 mem (ucast host) term) redo
              else if get_tag (ask_arg mem term 0) = CTR \<or> get_tag (ask_arg mem term 0) = NUM then
                bnd (gentree_rec mem (ucast host) term) redo
              else Ok (Break s))
           else if func = FFT then
             (if get_tag (ask_arg mem term 0) = SUP_tag then
                bnd (cal_par mem (ucast host) term (ask_arg mem term 0) 0) (\<lambda>(done, mem).
                  Ok (Continue (mem, stack, init, host)))
              else if get_tag (ask_arg mem term 0) = CTR \<and> get_ext (ask_arg mem term 0) = 31 then
                bnd (fft_leaf mem (ucast host) term) redo
              else if get_tag (ask_arg mem term 0) = CTR \<and> get_ext (ask_arg mem term 0) = 30 then
                bnd (fft_both mem (ucast host) term) redo
              else Ok (Break s))
           else if func = MAIN then
             bnd (main_rule n mem (ucast host) term) redo
           else if func = ADDRIGHTLEAF then
             (if get_tag (ask_arg mem term 1) = SUP_tag then
                bnd (cal_par mem (ucast host) term (ask_arg mem term 1) 1) (\<lambda>(done, mem).
                  Ok (Continue (mem, stack, init, host)))
              else if get_tag (ask_arg mem term 1) = CTR \<and> get_ext (ask_arg mem term 1) = 31 then
                bnd (addrightleaf_leaf mem (ucast host) term) redo
              else if get_tag (ask_arg mem term 1) = CTR \<and> get_ext (ask_arg mem term 1) = 30 then
                bnd (addrightleaf_both mem (ucast host) term) redo
              else Ok (Break s))
           else if func = ADDLEFTLEAF then
             (if get_tag (ask_arg mem term 1) = SUP_tag then
                bnd (cal_par mem (ucast host) term (ask_arg mem term 1) 1) (\<lambda>(done, mem).
                  Ok (Continue (mem, stack, init, host)))
              else if get_tag (ask_arg mem term 1) = CTR \<and> get_ext (ask_arg mem term 1) = 31 then
                bnd (addleftleaf_leaf mem (ucast host) term) redo
              else if get_tag (ask_arg mem term 1) = CTR \<and> get_ext (ask_arg mem term 1) = 30 then
                bnd (addleftleaf_both mem (ucast host) term) redo
              else Ok (Break s))
           else Ok (Break s))"

definition ascend :: "nat \<Rightarrow> rstate \<Rightarrow> Ptr \<Rightarrow> flow outcome" where
  "ascend n s term =
     (case s of (mem, stack, init, host) \<Rightarrow>
        let redo = (\<lambda>mem. Ok (Continue (mem, stack, 1, host)));
            leave = (\<lambda>mem. Ok (Break (mem, stack, init, host)));
            unlock = (\<lambda>mem. Ok (Break (atomic_flag_clear mem (get_loc term 0), stack, init, host)))
        in if get_tag term = APP then
             (let arg0 = ask_arg mem term 0
              in if get_tag arg0 = LAM then bnd (app_lam n mem (ucast host) term arg0) redo
                 else if get_tag arg0 = SUP_tag then bnd (app_sup mem (ucast host) term arg0) leave
                 else Ok (Break s))
           else if get_tag term = DP0 \<or> get_tag term = DP1 then
             (let arg0 = ask_arg mem term 2
              in if get_tag arg0 = LAM then bnd (dup_lam n mem (ucast host) term arg0) redo
                 else if get_tag arg0 = SUP_tag then
                   (if get_ext term = get_ext arg0
                    then bnd (dup_sup_same n mem (ucast host) term arg0) redo
                    else bnd (dup_sup_diff n mem (ucast host) term arg0) unlock)
                 else if get_tag arg0 = NUM then bnd (dup_num n mem (ucast host) term arg0) unlock
                 else if get_tag arg0 = CTR then bnd (dup_ctr n mem (ucast host) term arg0) unlock
                 else if get_tag arg0 = ERA then bnd (dup_era n mem (ucast host) term) redo
                 else unlock mem)
           else if get_tag term = OP2 then
             (let arg0 = ask_arg mem term 0;
                  arg1 = ask_arg mem term 1
              in if get_tag arg0 = NUM \<and> get_tag arg1 = NUM
                   then bnd (op2_num mem (ucast host) term arg0 arg1) leave
                 else if get_tag arg0 = SUP_tag
                   then bnd (op2_sup_0 mem (ucast host) term arg0 arg1) leave
                 else if get_tag arg1 = SUP_tag
                   then bnd (op2_sup_1 mem (ucast host) term arg0 arg1) leave
                 else Ok (Break s))
           else if get_tag term = FUN then fun_ascend n s term
           else Ok (Break s))"

text \<open>The end of the loop body: pop an item; \<^verbatim>\<open>-1\<close> ends the loop, any other item carries the
  phase in bit 31 and the host in the low 31 bits.\<close>

definition reduce_pop :: "Worker \<Rightarrow> Stk \<Rightarrow> step" where
  "reduce_pop mem stack =
     (let (item, stack') = stk_pop stack
      in if item = - 1 then Return mem
         else Next (mem, stack', drop_bit 31 item, ucast (item AND 0x7FFFFFFF)))"

definition reduce_iter :: "nat \<Rightarrow> u64 \<Rightarrow> rstate \<Rightarrow> step outcome" where
  "reduce_iter n slen s =
     (case s of (mem, stack, init, host) \<Rightarrow>
        let term = ask_lnk mem (ucast host)
        in bnd (if init = 1 then Ok (descend slen s term) else ascend n s term) (\<lambda>fl.
           case fl of
             Continue s' \<Rightarrow> Ok (Next s')
           | Break (mem', stack', init', host') \<Rightarrow> Ok (reduce_pop mem' stack')))"

text \<open>\<^verbatim>\<open>while (1)\<close>: the fuel bounds the number of iterations, and what is left of it is the
  depth allowed to \<^verbatim>\<open>collect\<close> inside an iteration.\<close>

primrec reduce_loop :: "nat \<Rightarrow> u64 \<Rightarrow> rstate \<Rightarrow> Worker outcome" where
  "reduce_loop 0 slen s = Timeout"
| "reduce_loop (Suc n) slen s =
     bnd (reduce_iter n slen s) (\<lambda>r.
       case r of Return mem \<Rightarrow> Ok mem | Next s' \<Rightarrow> reduce_loop n slen s')"

text \<open>\<^verbatim>\<open>u32 host = (u32)root\<close>, and the result is read at the 64-bit \<^verbatim>\<open>root\<close>.\<close>

definition reduce :: "nat \<Rightarrow> Worker \<Rightarrow> u64 \<Rightarrow> u64 \<Rightarrow> (Ptr \<times> Worker) outcome" where
  "reduce n mem root slen =
     bnd (reduce_loop n slen (mem, stk_init, 1, ucast root)) (\<lambda>mem'.
       Ok (ask_lnk mem' root, mem'))"

section \<open>The visited bitmap\<close>

text \<open>\<^verbatim>\<open>normal_seen_data\<close> is an array of \<^verbatim>\<open>NORMAL_SEEN_MCAP\<close> 64-bit words; \<^verbatim>\<open>set_bit\<close> and
  \<^verbatim>\<open>get_bit\<close> address word \<^verbatim>\<open>bit >> 6\<close> of it. The two functions are only used on this array,
  so the model checks the word index against its length.\<close>

definition NORMAL_SEEN_MCAP :: u64 where
  "NORMAL_SEEN_MCAP = HEAP_SIZE div 8 div (8 * 8)"

definition set_bit_seen :: "(u64 \<Rightarrow> u64) \<Rightarrow> u64 \<Rightarrow> (u64 \<Rightarrow> u64) outcome" where
  "set_bit_seen bits k =
     (if \<not> drop_bit 6 k < NORMAL_SEEN_MCAP then Crash IndexOutOfBounds
      else Ok (bits(drop_bit 6 k :=
                 bits (drop_bit 6 k) OR push_bit (unat (k AND 0x3f)) 1)))"

definition get_bit_seen :: "(u64 \<Rightarrow> u64) \<Rightarrow> u64 \<Rightarrow> u8 outcome" where
  "get_bit_seen bits k =
     (if \<not> drop_bit 6 k < NORMAL_SEEN_MCAP then Crash IndexOutOfBounds
      else Ok (ucast (drop_bit (unat (k AND 0x3F)) (bits (drop_bit 6 k)) AND 1)))"

definition normal_init :: "u64 \<Rightarrow> u64" where
  "normal_init = (\<lambda>_. 0)"

section \<open>The worker pool and the normalizer\<close>

text \<open>The process state: the array \<^verbatim>\<open>workers\<close>, the heap that every worker's \<^verbatim>\<open>node\<close> pointer
  refers to, and the visited bitmap. A \<^verbatim>\<open>Worker*\<close> is an index into \<^verbatim>\<open>pool\<close>. \<^verbatim>\<open>load\<close> is the
  worker as the single-worker functions see it, with the shared heap behind its pointer;
  \<^verbatim>\<open>store\<close> writes the worker and the heap back.\<close>

record Runtime =
  pool :: "Worker list"
  shared :: "u64 \<Rightarrow> Ptr"
  normal_seen_data :: "u64 \<Rightarrow> u64"

definition load :: "Runtime \<Rightarrow> nat \<Rightarrow> Worker outcome" where
  "load rt i =
     (if i < length (pool rt) then Ok ((pool rt ! i)\<lparr>node := shared rt\<rparr>)
      else Crash IndexOutOfBounds)"

definition store :: "Runtime \<Rightarrow> nat \<Rightarrow> Worker \<Rightarrow> Runtime" where
  "store rt i w = rt\<lparr>pool := (pool rt)[i := w], shared := node w\<rparr>"

text \<open>The child locations \<^verbatim>\<open>normal_go\<close> collects in \<^verbatim>\<open>rec_locs[16]\<close>. The \<^verbatim>\<open>break\<close> of the \<^verbatim>\<open>OP2\<close>
  case is inside its \<^verbatim>\<open>if (slen > 1)\<close>, so with \<^verbatim>\<open>slen \<le> 1\<close> control falls into the
  \<^verbatim>\<open>CTR\<close>/\<^verbatim>\<open>FUN\<close> case. A store beyond the 16 entries of the array is a failure.\<close>

definition rec_locs_of :: "Worker \<Rightarrow> Ptr \<Rightarrow> u64 \<Rightarrow> u64 list outcome" where
  "rec_locs_of mem term slen =
     (if get_tag term = LAM then Ok [get_loc term 1]
      else if get_tag term = APP then Ok [get_loc term 0, get_loc term 1]
      else if get_tag term = SUP_tag then Ok [get_loc term 0, get_loc term 1]
      else if get_tag term = DP0 then Ok [get_loc term 2]
      else if get_tag term = DP1 then Ok [get_loc term 2]
      else if get_tag term = OP2 \<and> slen > 1 then Ok [get_loc term 0, get_loc term 1]
      else if get_tag term = OP2 \<or> get_tag term = CTR \<or> get_tag term = FUN then
        (let arity = ask_ari mem term
         in if arity > 16 then Crash IndexOutOfBounds
            else Ok (map (get_loc term) (indices arity)))
      else Ok [])"

text \<open>\<^verbatim>\<open>normal_fork\<close> packs its arguments into one word and the worker unpacks them.\<close>

definition work_item :: "u64 \<Rightarrow> u64 \<Rightarrow> u64 \<Rightarrow> u64" where
  "work_item sidx slen host = push_bit 48 sidx OR push_bit 32 slen OR host"

definition work_sidx :: "u64 \<Rightarrow> u64" where "work_sidx work = drop_bit 48 work AND 0xFFFF"
definition work_slen :: "u64 \<Rightarrow> u64" where "work_slen work = drop_bit 32 work AND 0xFFFF"
definition work_host :: "u64 \<Rightarrow> u64" where "work_host work = drop_bit 0 work AND 0xFFFFFFFF"

fun map_each :: "u64 list \<Rightarrow> 's \<Rightarrow> (u64 \<Rightarrow> 's \<Rightarrow> ('r \<times> 's) outcome) \<Rightarrow> ('r list \<times> 's) outcome"
  where
  "map_each [] s f = Ok ([], s)"
| "map_each (i # rest) s f =
     bnd (f i s) (\<lambda>(r, s'). bnd (map_each rest s' f) (\<lambda>(rs, s''). Ok (r # rs, s'')))"

text \<open>\<^verbatim>\<open>link\<close> by worker \<^verbatim>\<open>me\<close> on the shared heap.\<close>

definition link_rt :: "Runtime \<Rightarrow> nat \<Rightarrow> u64 \<Rightarrow> Ptr \<Rightarrow> Runtime outcome" where
  "link_rt rt me loc lnk = bnd (load rt me) (\<lambda>mem. Ok (store rt me (link mem loc lnk)))"

text \<open>\<^verbatim>\<open>normal_go\<close>. The recursion follows the graph, which may be cyclic only through visited
  hosts, and \<^verbatim>\<open>reduce\<close> need not end; the fuel bounds both. Where the source forks the children
  \<^verbatim>\<open>1 .. k-1\<close> to the workers \<^verbatim>\<open>sidx + i*space\<close> and joins them after child 0, the model runs one
  schedule of it: each forked child runs to completion on its worker at the fork, in the
  order of the forks, then child 0 runs on the current worker, then the results are linked.
  A forked worker index beyond the pool is a failure.\<close>

primrec normal_go :: "nat \<Rightarrow> Runtime \<Rightarrow> nat \<Rightarrow> u64 \<Rightarrow> u64 \<Rightarrow> u64 \<Rightarrow> (Ptr \<times> Runtime) outcome"
  where
  "normal_go 0 rt me host sidx slen = Timeout"
| "normal_go (Suc n) rt me host sidx slen =
     bnd (load rt me) (\<lambda>mem.
     let term = ask_lnk mem host
     in bnd (get_bit_seen (normal_seen_data rt) host) (\<lambda>b.
        if b \<noteq> 0 then Ok (term, rt)
        else
          bnd (reduce n mem host slen) (\<lambda>(term, mem).
          let rt = store rt me mem
          in bnd (set_bit_seen (normal_seen_data rt) host) (\<lambda>bits.
          let rt = rt\<lparr>normal_seen_data := bits\<rparr>
          in bnd (rec_locs_of mem term slen) (\<lambda>rec_locs.
          let rec_size = of_nat (length rec_locs) :: u64
          in if rec_size \<ge> 2 \<and> slen \<ge> rec_size then
               (let space = slen div rec_size
                in bnd (map_each (tl (indices rec_size)) rt (\<lambda>i rt.
                     let work = work_item (sidx + i * space) space (rec_locs ! unat i);
                         wtid = sidx + i * space
                     in normal_go n rt (unat wtid) (work_host work) (work_sidx work)
                          (work_slen work))) (\<lambda>(joined, rt).
                   bnd (normal_go n rt me (rec_locs ! 0) sidx space) (\<lambda>(r0, rt).
                   bnd (link_rt rt me (rec_locs ! 0) r0) (\<lambda>rt.
                   bnd (for_each (tl (indices rec_size)) rt (\<lambda>i rt.
                     link_rt rt me (get_loc term i) (joined ! (unat i - 1)))) (\<lambda>rt.
                   Ok (term, rt))))))
             else
               bnd (for_each (indices rec_size) rt (\<lambda>i rt.
                 bnd (normal_go n rt me (rec_locs ! unat i) sidx slen) (\<lambda>(r, rt).
                 link_rt rt me (rec_locs ! unat i) r))) (\<lambda>rt.
               Ok (term, rt)))))))"

text \<open>The loop of \<^verbatim>\<open>normal\<close>: passes with budget 1 until a pass leaves the cost of the calling
  worker unchanged.\<close>

primrec normal_loop :: "nat \<Rightarrow> Runtime \<Rightarrow> nat \<Rightarrow> u64 \<Rightarrow> u64 \<Rightarrow> (Ptr \<times> Runtime) outcome" where
  "normal_loop 0 rt me host c = Timeout"
| "normal_loop (Suc n) rt me host c =
     bnd (normal_go n (rt\<lparr>normal_seen_data := normal_init\<rparr>) me host 0 1) (\<lambda>(done, rt).
     bnd (load rt me) (\<lambda>mem.
     if cost mem \<noteq> c then normal_loop n rt me host (cost mem)
     else Ok (done, rt)))"

definition normal :: "nat \<Rightarrow> Runtime \<Rightarrow> nat \<Rightarrow> u64 \<Rightarrow> u64 \<Rightarrow> u64 \<Rightarrow> (Ptr \<times> Runtime) outcome"
  where
  "normal n rt me host sidx slen =
     bnd (normal_go n (rt\<lparr>normal_seen_data := normal_init\<rparr>) me host sidx slen) (\<lambda>(first, rt).
     bnd (load rt me) (\<lambda>mem.
     normal_loop n rt me host (cost mem)))"

text \<open>The initialisation loop of \<^verbatim>\<open>ffi_normal\<close>: worker \<^verbatim>\<open>t\<close> of the pool. The arity table is
  installed by the caller before \<^verbatim>\<open>ffi_normal\<close> runs.\<close>

definition worker_init :: "(u64 \<Rightarrow> u64) \<Rightarrow> u64 \<Rightarrow> (u64 \<Rightarrow> Ptr) \<Rightarrow> u32 \<Rightarrow> u64 \<Rightarrow> Worker" where
  "worker_init ars fns mem_data mem_size t =
     \<lparr>tid = t, node = mem_data, msize = (if t = 0 then ucast mem_size else 0),
      free = (\<lambda>a. stk_init), cost = 0, dups = MAX_DUPS * t div MAX_WORKERS,
      aris = ars, funs = fns\<rparr>"

text \<open>\<^verbatim>\<open>ffi_normal\<close> returns \<^verbatim>\<open>ffi_cost\<close>, \<^verbatim>\<open>ffi_size\<close> and the process state it leaves.\<close>

definition ffi_normal ::
  "nat \<Rightarrow> (u64 \<Rightarrow> u64) \<Rightarrow> u64 \<Rightarrow> (u64 \<Rightarrow> Ptr) \<Rightarrow> u32 \<Rightarrow> u32 \<Rightarrow> (u64 \<times> u64 \<times> Runtime) outcome"
  where
  "ffi_normal n ars fns mem_data mem_size host =
     (let rt = \<lparr>pool = map (worker_init ars fns mem_data mem_size) (indices MAX_WORKERS),
                shared = mem_data, normal_seen_data = normal_init\<rparr>
      in bnd (normal n rt 0 (ucast host) 0 MAX_WORKERS) (\<lambda>(done, rt).
         Ok (sum_list (map cost (pool rt)), sum_list (map msize (pool rt)), rt)))"

section \<open>Command-line arguments\<close>







section \<open>Readback\<close>

text \<open>The character stack holds the code of each character as a 64-bit word.\<close>

definition chr :: "char \<Rightarrow> u64" where
  "chr c = of_char c"

primrec readback_vars :: "nat \<Rightarrow> Stk \<times> Stk \<Rightarrow> Worker \<Rightarrow> Ptr \<Rightarrow> (Stk \<times> Stk) outcome" where
  "readback_vars 0 vs mem term = Timeout"
| "readback_vars (Suc n) vs mem term =
     (case vs of (vars, seen) \<Rightarrow>
        if stk_find seen term \<noteq> - 1 then Ok (vars, seen)
        else
          (let seen = stk_push seen term
           in if get_tag term = LAM then
                (let argm = ask_arg mem term 0;
                     body = ask_arg mem term 1;
                     vars = (if get_tag argm \<noteq> ERA then stk_push vars (Var (get_loc term 0))
                             else vars)
                 in readback_vars n (vars, seen) mem body)
              else if get_tag term = APP \<or> get_tag term = SUP_tag \<or> get_tag term = OP2 then
                bnd (readback_vars n (vars, seen) mem (ask_arg mem term 0)) (\<lambda>vs.
                readback_vars n vs mem (ask_arg mem term 1))
              else if get_tag term = DP0 \<or> get_tag term = DP1 then
                readback_vars n (vars, seen) mem (ask_arg mem term 2)
              else if get_tag term = CTR \<or> get_tag term = FUN then
                for_each (indices (ask_ari mem term)) (vars, seen) (\<lambda>i vs.
                  readback_vars n vs mem (ask_arg mem term i))
              else Ok (vars, seen)))"

function readback_decimal_go :: "Stk \<Rightarrow> u64 \<Rightarrow> Stk" where
  "readback_decimal_go chrs n =
     (if n > 0 then stk_push (readback_decimal_go chrs (n div 10)) (chr CHR ''0'' + n mod 10)
      else chrs)"
  by pat_completeness auto
termination
proof (relation "measure (\<lambda>(chrs, n). unat n)")
  show "wf (measure (\<lambda>(chrs, n). unat n))" by simp
next
  fix chrs :: Stk and n :: u64
  assume "0 < n"
  then have "0 < unat n" by (simp add: word_less_nat_alt)
  then have "unat n div 10 < unat n" by simp
  then show "((chrs, n div 10), (chrs, n)) \<in> measure (\<lambda>(chrs, n). unat n)"
    by (simp add: unat_div)
qed

declare readback_decimal_go.simps [simp del]

definition readback_decimal :: "Stk \<Rightarrow> u64 \<Rightarrow> Stk" where
  "readback_decimal chrs n =
     (if n = 0 then stk_push chrs (chr CHR ''0'') else readback_decimal_go chrs n)"

definition push_string :: "Stk \<Rightarrow> string \<Rightarrow> Stk" where
  "push_string chrs s = foldl (\<lambda>st c. stk_push st (chr c)) chrs s"

definition op2_symbol :: "u64 \<Rightarrow> string" where
  "op2_symbol ope =
     (if ope = ADD then ''+'' else if ope = SUB then ''-'' else if ope = MUL then ''*''
      else if ope = DIV then ''/'' else if ope = MOD then ''%'' else if ope = AND_op then ''&''
      else if ope = OR_op then ''|'' else if ope = XOR_op then ''^'' else if ope = SHL then ''<<''
      else if ope = SHR then ''>>'' else if ope = LTN then ''<'' else if ope = LTE then ''<=''
      else if ope = EQL then ''=='' else if ope = GTE then ''>='' else if ope = GTN then ''>''
      else if ope = NEQ then ''!='' else [])"

text \<open>\<^verbatim>\<open>dirs\<close> is an array of \<^verbatim>\<open>DIRS_MCAP\<close> stacks indexed by colour; a colour at or beyond
  \<^verbatim>\<open>DIRS_MCAP\<close> indexes outside it. The name table is the memory behind \<^verbatim>\<open>id_to_name_data\<close>, of
  which the code reads the entries below \<^verbatim>\<open>id_to_name_mcap\<close>; \<open>None\<close> is the NULL entry. The
  recursion follows the graph and is bounded by the fuel.\<close>

primrec readback_term ::
  "nat \<Rightarrow> Stk \<times> (u64 \<Rightarrow> Stk) \<Rightarrow> Worker \<Rightarrow> Ptr \<Rightarrow> Stk \<Rightarrow> (u64 \<Rightarrow> string option) \<Rightarrow> u64 \<Rightarrow>
   (Stk \<times> (u64 \<Rightarrow> Stk)) outcome" where
  "readback_term 0 st mem term vars id_to_name_data id_to_name_mcap = Timeout"
| "readback_term (Suc n) st mem term vars id_to_name_data id_to_name_mcap =
     (case st of (chrs, dirs) \<Rightarrow>
        if get_tag term = LAM then
          (let chrs = stk_push chrs (chr CHR ''@'');
               chrs = (if get_tag (ask_arg mem term 0) = ERA then stk_push chrs (chr CHR ''_'')
                       else readback_decimal (stk_push chrs (chr CHR ''x''))
                              (stk_find vars (Var (get_loc term 0))));
               chrs = stk_push chrs (chr CHR '' '')
           in readback_term n (chrs, dirs) mem (ask_arg mem term 1) vars id_to_name_data
                id_to_name_mcap)
        else if get_tag term = APP then
          bnd (readback_term n (stk_push chrs (chr CHR ''(''), dirs) mem (ask_arg mem term 0) vars
                 id_to_name_data id_to_name_mcap) (\<lambda>(chrs, dirs).
          bnd (readback_term n (stk_push chrs (chr CHR '' ''), dirs) mem (ask_arg mem term 1) vars
                 id_to_name_data id_to_name_mcap) (\<lambda>(chrs, dirs).
          Ok (stk_push chrs (chr CHR '')''), dirs)))
        else if get_tag term = SUP_tag then
          (let col = get_ext term
           in if \<not> col < DIRS_MCAP then Crash IndexOutOfBounds
              else if dirs col \<noteq> [] then
                (let (head, rest) = stk_pop (dirs col)
                 in bnd (readback_term n (chrs, dirs(col := rest)) mem
                           (ask_arg mem term (if head = 0 then 0 else 1)) vars id_to_name_data
                           id_to_name_mcap) (\<lambda>(chrs, dirs).
                    Ok (chrs, dirs(col := stk_push (dirs col) head))))
              else
                bnd (readback_term n (stk_push chrs (chr CHR ''<''), dirs) mem
                       (ask_arg mem term 0) vars id_to_name_data id_to_name_mcap) (\<lambda>(chrs, dirs).
                bnd (readback_term n (stk_push chrs (chr CHR '' ''), dirs) mem
                       (ask_arg mem term 1) vars id_to_name_data id_to_name_mcap) (\<lambda>(chrs, dirs).
                Ok (stk_push chrs (chr CHR ''>''), dirs))))
        else if get_tag term = DP0 \<or> get_tag term = DP1 then
          (let col = get_ext term
           in if \<not> col < DIRS_MCAP then Crash IndexOutOfBounds
              else
                bnd (readback_term n
                       (chrs, dirs(col := stk_push (dirs col) (if get_tag term = DP0 then 0 else 1)))
                       mem (ask_arg mem term 2) vars id_to_name_data id_to_name_mcap)
                  (\<lambda>(chrs, dirs). Ok (chrs, dirs(col := snd (stk_pop (dirs col))))))
        else if get_tag term = OP2 then
          bnd (readback_term n (stk_push chrs (chr CHR ''(''), dirs) mem (ask_arg mem term 0) vars
                 id_to_name_data id_to_name_mcap) (\<lambda>(chrs, dirs).
          bnd (readback_term n (push_string chrs (op2_symbol (get_ext term)), dirs) mem
                 (ask_arg mem term 1) vars id_to_name_data id_to_name_mcap) (\<lambda>(chrs, dirs).
          Ok (stk_push chrs (chr CHR '')''), dirs)))
        else if get_tag term = NUM then Ok (readback_decimal chrs (get_num term), dirs)
        else if get_tag term = CTR \<or> get_tag term = FUN then
          (let func = get_ext term;
               arit = ask_ari mem term;
               chrs = stk_push chrs (chr CHR ''('');
               chrs = (if func < id_to_name_mcap \<and> id_to_name_data func \<noteq> None
                       then push_string chrs (the (id_to_name_data func))
                       else readback_decimal (stk_push chrs (chr CHR ''$'')) func)
           in bnd (for_each (indices arit) (chrs, dirs) (\<lambda>i (chrs, dirs).
                readback_term n (stk_push chrs (chr CHR '' ''), dirs) mem (ask_arg mem term i)
                  vars id_to_name_data id_to_name_mcap)) (\<lambda>(chrs, dirs).
              Ok (stk_push chrs (chr CHR '')''), dirs)))
        else if get_tag term = VAR then
          Ok (readback_decimal (stk_push chrs (chr CHR ''x'')) (stk_find vars term), dirs)
        else Ok (stk_push chrs (chr CHR ''?''), dirs))"

text \<open>The caller's buffer is the list of its bytes; a store at or beyond its end is a
  failure. \<^verbatim>\<open>readback\<close> returns the buffer it leaves.\<close>

definition store_char :: "u8 list \<Rightarrow> u64 \<Rightarrow> u8 \<Rightarrow> u8 list outcome" where
  "store_char buf i c = (if unat i < length buf then Ok (buf[unat i := c]) else Crash BufferOverflow)"

definition readback ::
  "nat \<Rightarrow> u8 list \<Rightarrow> u64 \<Rightarrow> Worker \<Rightarrow> Ptr \<Rightarrow> (u64 \<Rightarrow> string option) \<Rightarrow> u64 \<Rightarrow> u8 list outcome"
  where
  "readback n code_data code_mcap mem term id_to_name_data id_to_name_mcap =
     bnd (readback_vars n (stk_init, stk_init) mem term) (\<lambda>(vars, seen).
     bnd (readback_term n (stk_init, \<lambda>i. stk_init) mem term vars id_to_name_data
            id_to_name_mcap) (\<lambda>(chrs, dirs).
     let size = (of_nat (length chrs) :: u64)
     in bnd (for_each (indices (if size < code_mcap then size else code_mcap)) code_data
              (\<lambda>i buf. store_char buf i (ucast (chrs ! unat i)))) (\<lambda>buf.
        store_char buf (if size < code_mcap then size else code_mcap) 0)))"

section \<open>Vocabulary of the properties and example states\<close>

text \<open>A variable-class link has tag \<^verbatim>\<open>DP0\<close>, \<^verbatim>\<open>DP1\<close> or \<^verbatim>\<open>VAR\<close>; its binder slot is slot 1 of
  the target for \<^verbatim>\<open>DP1\<close> and slot 0 otherwise. The back-pointer property of an address says
  that, if a variable-class link lives there, its binder slot points back to the address.\<close>

definition var_class :: "Ptr \<Rightarrow> bool" where
  "var_class lnk \<longleftrightarrow> get_tag lnk = DP0 \<or> get_tag lnk = DP1 \<or> get_tag lnk = VAR"

definition binder_slot :: "Ptr \<Rightarrow> u64" where
  "binder_slot lnk = get_loc lnk (if get_tag lnk = DP1 then 1 else 0)"

definition backptr_ok :: "Worker \<Rightarrow> u64 \<Rightarrow> bool" where
  "backptr_ok mem a \<longleftrightarrow> (var_class (node mem a) \<longrightarrow> node mem (binder_slot (node mem a)) = Arg a)"

text \<open>A worker with an empty arity table, empty free-lists and a given heap.\<close>

definition worker0 :: "(u64 \<Rightarrow> Ptr) \<Rightarrow> Worker" where
  "worker0 h = \<lparr>tid = 0, node = h, msize = 0, free = (\<lambda>_. []), cost = 0, dups = 0,
           aris = (\<lambda>_. 0), funs = 0\<rparr>"

definition heap_var :: "u64 \<Rightarrow> Ptr" where
  "heap_var = (\<lambda>_. Era)(0 := Var 1, 1 := Arg 0)"

definition worker_full :: Worker where
  "worker_full = (worker0 (\<lambda>_. Era))\<lparr>msize := MEM_SPACE\<rparr>"

definition worker_reuse :: Worker where
  "worker_reuse = (worker0 (\<lambda>_. Era))\<lparr>msize := 40, free := (\<lambda>_. [])(2 := [7, 9])\<rparr>"

text \<open>A worker whose free-list of size 2 has the sentinel value on top.\<close>

definition worker_sentinel :: Worker where
  "worker_sentinel = (worker0 (\<lambda>_. Era))\<lparr>msize := 40, free := (\<lambda>_. [])(2 := [7, - 1])\<rparr>"

text \<open>Partition \<open>t\<close> of the heap is the words from \<open>t * MEM_SPACE\<close> up to, not including,
  \<open>(t + 1) * MEM_SPACE\<close>; a block of \<open>sz\<close> words at \<open>loc\<close> lies inside it when both of its ends
  do.\<close>

definition in_partition :: "u64 \<Rightarrow> u64 \<Rightarrow> u64 \<Rightarrow> bool" where
  "in_partition t loc sz \<longleftrightarrow>
     unat t * unat MEM_SPACE \<le> unat loc \<and> unat loc + unat sz \<le> (unat t + 1) * unat MEM_SPACE"

text \<open>The worker after \<open>k\<close> calls of \<^verbatim>\<open>gen_dupk\<close>, and the colour its next call returns.\<close>

primrec after_dupk :: "nat \<Rightarrow> Worker \<Rightarrow> Worker" where
  "after_dupk 0 mem = mem"
| "after_dupk (Suc k) mem = snd (gen_dupk (after_dupk k mem))"

definition nth_color :: "Worker \<Rightarrow> nat \<Rightarrow> u64" where
  "nth_color mem k = fst (gen_dupk (after_dupk k mem))"

definition pool_worker :: "u64 \<Rightarrow> Worker" where
  "pool_worker t = worker_init (\<lambda>_. 0) 0 (\<lambda>_. Era) 0 t"

text \<open>The result of an operator on two naturals as the specification words it: the
  mathematical result modulo \<open>2^60\<close>, and 1 or 0 for a comparison.\<close>

definition op2_spec :: "u64 \<Rightarrow> nat \<Rightarrow> nat \<Rightarrow> nat" where
  "op2_spec ope a b =
     (if ope = ADD then (a + b) mod 2 ^ 60
      else if ope = SUB then nat ((int a - int b) mod 2 ^ 60)
      else if ope = MUL then (a * b) mod 2 ^ 60
      else if ope = DIV then (a div b) mod 2 ^ 60
      else if ope = MOD then (a mod b) mod 2 ^ 60
      else if ope = AND_op then (a AND b) mod 2 ^ 60
      else if ope = OR_op then (a OR b) mod 2 ^ 60
      else if ope = XOR_op then (a XOR b) mod 2 ^ 60
      else if ope = SHL then (a * 2 ^ b) mod 2 ^ 60
      else if ope = SHR then (a div 2 ^ b) mod 2 ^ 60
      else if ope = LTN then (if a < b then 1 else 0)
      else if ope = LTE then (if a \<le> b then 1 else 0)
      else if ope = EQL then (if a = b then 1 else 0)
      else if ope = GTE then (if a \<ge> b then 1 else 0)
      else if ope = GTN then (if a > b then 1 else 0)
      else if ope = NEQ then (if a \<noteq> b then 1 else 0)
      else 0)"

definition op_codes :: "u64 set" where
  "op_codes = {ADD, SUB, MUL, DIV, MOD, AND_op, OR_op, XOR_op, SHL, SHR, LTN, LTE, EQL, GTE, GTN, NEQ}"

text \<open>Three heaps holding one operator node at address 0 with its operands at 1 and 2:
  \<open>(+ 3 4)\<close>, \<open>(/ 7 0)\<close> and \<open>(<< 1 64)\<close>.\<close>

definition heap_add :: "u64 \<Rightarrow> Ptr" where
  "heap_add = (\<lambda>_. Era)(0 := Op2 ADD 1, 1 := Num 3, 2 := Num 4)"

definition heap_div0 :: "u64 \<Rightarrow> Ptr" where
  "heap_div0 = (\<lambda>_. Era)(0 := Op2 DIV 1, 1 := Num 7, 2 := Num 0)"

definition heap_shl64 :: "u64 \<Rightarrow> Ptr" where
  "heap_shl64 = (\<lambda>_. Era)(0 := Op2 SHL 1, 1 := Num 1, 2 := Num 64)"

text \<open>A fan of colour 5 over the numbers 7 and 8, and a heap holding the number 42.\<close>

definition heap_fan :: "u64 \<Rightarrow> Ptr" where
  "heap_fan = (\<lambda>_. Era)(0 := Par 5 1, 1 := Num 7, 2 := Num 8)"

definition heap_num :: "u64 \<Rightarrow> Ptr" where
  "heap_num = (\<lambda>_. Era)(0 := Num 42)"

text \<open>The same fan with colour 1398101, the first colour of worker 1
  (\<^verbatim>\<open>MAX_DUPS * 1 / MAX_WORKERS\<close>), read back with no direction pushed and no name table.\<close>

definition heap_fan_far :: "u64 \<Rightarrow> Ptr" where
  "heap_fan_far = (\<lambda>_. Era)(0 := Par 1398101 1, 1 := Num 7, 2 := Num 8)"

definition no_dirs :: "u64 \<Rightarrow> Stk" where
  "no_dirs = (\<lambda>_. stk_init)"

definition no_names :: "u64 \<Rightarrow> string option" where
  "no_names = (\<lambda>_. None)"



text \<open>The arity table that \<^verbatim>\<open>main\<close> installs; the entries it leaves unset are 0 here.\<close>

definition main_aris :: "u64 \<Rightarrow> u64" where
  "main_aris = (\<lambda>_. 0)(37 := 2, 4 := 1, 42 := 2, 3 := 2, 6 := 2, 29 := 2, 30 := 2, 35 := 1,
     8 := 3, 31 := 1, 28 := 1, 40 := 2, 5 := 1, 1 := 2, 7 := 3, 32 := 1, 34 := 2, 38 := 2,
     41 := 2, 39 := 3, 33 := 2, 36 := 2, 2 := 0, 0 := 2, 9 := 2)"

text \<open>The term \<^verbatim>\<open>(F 7)\<close> for a function id 50, beyond the 43 entries of the table.\<close>

definition heap_stuck :: "u64 \<Rightarrow> Ptr" where
  "heap_stuck = (\<lambda>_. Era)(0 := Cal 1 50 1, 1 := Num 7)"

definition stuck_worker :: Worker where
  "stuck_worker = worker_init main_aris 43 heap_stuck 2 0"

definition stuck_rt :: Runtime where
  "stuck_rt = \<lparr>pool = [stuck_worker], shared = heap_stuck, normal_seen_data = normal_init\<rparr>"

text \<open>The normal form \<^verbatim>\<open>@x0 (x0 ^ 1)\<close> at addresses 0 to 4, followed by five words that no link
  of the graph refers to and that hold the redex \<^verbatim>\<open>((@_ 7) 5)\<close>.\<close>

definition heap_nf :: "u64 \<Rightarrow> Ptr" where
  "heap_nf = (\<lambda>_. Era)(0 := Lam 1, 1 := Arg 3, 2 := Op2 XOR_op 3, 3 := Var 1, 4 := Num 1,
     5 := App 6, 6 := Lam 8, 7 := Num 5, 8 := Era, 9 := Num 7)"

text \<open>The same heap with the five words beside the graph erased.\<close>

definition heap_nf_clean :: "u64 \<Rightarrow> Ptr" where
  "heap_nf_clean = (\<lambda>_. Era)(0 := Lam 1, 1 := Arg 3, 2 := Op2 XOR_op 3, 3 := Var 1, 4 := Num 1)"

section \<open>Collections of defining equations\<close>

lemmas tag_defs = DP0_def DP1_def VAR_def ARG_def ERA_def LAM_def APP_def SUP_tag_def CTR_def
  FUN_def OP2_def NUM_def FLO_def NIL_def

lemmas op_defs = ADD_def SUB_def MUL_def DIV_def MOD_def AND_op_def OR_op_def XOR_op_def
  SHL_def SHR_def LTN_def LTE_def EQL_def GTE_def GTN_def NEQ_def

lemmas fid_defs = GENTREE_def FFT_def MAIN_def ADDRIGHTLEAF_def ADDLEFTLEAF_def

lemmas ctor_defs = Var_def Dp0_def Dp1_def Arg_def Era_def Lam_def App_def Par_def Op2_def
  Num_def Ctr_def Cal_def TAG_def EXT_def NUM_MASK_def

lemmas get_defs = get_tag_def get_ext_def get_val_def get_num_def get_loc_def TAG_def EXT_def

section \<open>The link codec, bitwise\<close>

lemma NUM_MASK_mask: "NUM_MASK = mask 60"
  by (simp add: NUM_MASK_def mask_eq_exp_minus_1)

lemma TAG_push: "t * TAG = push_bit 60 t"
  by (simp add: TAG_def push_bit_eq_mult)

lemma EXT_push: "c * EXT = push_bit 32 c"
  by (simp add: EXT_def push_bit_eq_mult)

lemma get_tag_drop: "get_tag lnk = drop_bit 60 lnk"
  by (simp add: get_tag_def TAG_def drop_bit_eq_div)


lemma get_val_take: "get_val lnk = take_bit 32 lnk"
  by (simp add: get_val_def take_bit_eq_mask mask_eq_exp_minus_1)

lemma get_ext_take: "get_ext lnk = take_bit 24 (drop_bit 32 lnk)"
  by (simp add: get_ext_def EXT_def take_bit_eq_mask mask_eq_exp_minus_1 drop_bit_eq_div)

lemma get_tag_Num: "get_tag (Num v) = NUM"
  unfolding get_tag_drop Num_def NUM_MASK_mask TAG_push NUM_def
  by (rule bit_word_eqI) (auto simp add: bit_simps)



lemma tag_distinct:
  "distinct [DP0, DP1, VAR, ARG, ERA, LAM, APP, SUP_tag, CTR, FUN, OP2, NUM, FLO, NIL]"
  by (simp add: tag_defs)

lemma not_var_NUM: "\<not> NUM \<le> VAR"
  by (simp add: tag_defs)

lemma link_Num: "link mem loc (Num c) = mem\<lparr>node := (node mem)(loc := Num c)\<rparr>"
  by (simp add: link_def get_tag_Num not_var_NUM)

section \<open>Sequencing of outcomes\<close>

lemma bnd_eq_Ok: "bnd m f = Ok y \<longleftrightarrow> (\<exists>x. m = Ok x \<and> f x = Ok y)"
  by (cases m) auto

lemma for_each_invariant:
  assumes "for_each xs s f = Ok s'" and "P s"
    and "\<And>i a b. f i a = Ok b \<Longrightarrow> P a \<Longrightarrow> P b"
  shows "P s'"
  using assms(1,2)
proof (induction xs arbitrary: s)
  case Nil
  then show ?case by simp
next
  case (Cons i rest)
  from Cons.prems(1) obtain m where m: "f i s = Ok m" and r: "for_each rest m f = Ok s'"
    by (auto simp: bnd_eq_Ok)
  from assms(3) [OF m Cons.prems(2)] have "P m" .
  then show ?case using Cons.IH r by blast
qed


section \<open>Linking and the back-pointer of variables\<close>

lemma u64_le_2: "(w::u64) \<le> 2 \<longleftrightarrow> w = 0 \<or> w = 1 \<or> w = 2"
proof -
  have "w \<le> 2 \<longleftrightarrow> unat w \<le> 2" by (simp add: word_le_nat_alt)
  also have "\<dots> \<longleftrightarrow> unat w = 0 \<or> unat w = 1 \<or> unat w = 2" by arith
  also have "\<dots> \<longleftrightarrow> w = 0 \<or> w = 1 \<or> w = 2"
    by (simp add: word_unat_eq_iff)
  finally show ?thesis .
qed

lemma var_class_le: "var_class lnk \<longleftrightarrow> get_tag lnk \<le> VAR"
  by (auto simp: var_class_def tag_defs u64_le_2)

lemma node_link:
  "node (link mem loc lnk) a =
     (if var_class lnk \<and> a = binder_slot lnk then Arg loc else if a = loc then lnk else node mem a)"
  by (simp add: link_def Let_def var_class_le binder_slot_def)

text \<open>Claim C5, as amended. \<^verbatim>\<open>link(loc, lnk)\<close> stores \<^verbatim>\<open>lnk\<close> at \<^verbatim>\<open>loc\<close> unless \<^verbatim>\<open>lnk\<close> is a
  variable-class link whose binder slot is \<^verbatim>\<open>loc\<close> itself; for a variable-class link it stores
  \<^verbatim>\<open>Arg(loc)\<close> in the binder slot (slot 1 of the target for \<^verbatim>\<open>DP1\<close>, slot 0 for \<^verbatim>\<open>DP0\<close> and
  \<^verbatim>\<open>VAR\<close>) and it changes no other word. Consequently the link just written has its
  back-pointer, and a variable-class link at another address keeps its back-pointer when its
  binder slot is neither \<^verbatim>\<open>loc\<close> nor the binder slot of \<^verbatim>\<open>lnk\<close>.\<close>

theorem link_backpointer:
  "(\<not> (var_class lnk \<and> binder_slot lnk = loc) \<longrightarrow> node (link mem loc lnk) loc = lnk) \<and>
   (get_tag lnk = DP1 \<longrightarrow> node (link mem loc lnk) (get_val lnk + 1) = Arg loc) \<and>
   (get_tag lnk = DP0 \<or> get_tag lnk = VAR \<longrightarrow> node (link mem loc lnk) (get_val lnk) = Arg loc) \<and>
   (\<forall>a. a \<noteq> loc \<and> \<not> (var_class lnk \<and> a = binder_slot lnk) \<longrightarrow>
        node (link mem loc lnk) a = node mem a) \<and>
   (\<not> (var_class lnk \<and> binder_slot lnk = loc) \<longrightarrow> backptr_ok (link mem loc lnk) loc) \<and>
   (\<forall>a. a \<noteq> loc \<and> backptr_ok mem a \<and>
        (var_class (node mem a) \<longrightarrow> binder_slot (node mem a) \<noteq> loc) \<and>
        \<not> (var_class lnk \<and> (a = binder_slot lnk \<or>
             (var_class (node mem a) \<and> binder_slot (node mem a) = binder_slot lnk)))
        \<longrightarrow> backptr_ok (link mem loc lnk) a)"
proof (intro conjI allI impI)
  show "node (link mem loc lnk) loc = lnk" if "\<not> (var_class lnk \<and> binder_slot lnk = loc)"
    using that by (auto simp: node_link)
  show "node (link mem loc lnk) (get_val lnk + 1) = Arg loc" if "get_tag lnk = DP1"
    using that by (simp add: node_link var_class_def binder_slot_def get_loc_def)
  show "node (link mem loc lnk) (get_val lnk) = Arg loc" if "get_tag lnk = DP0 \<or> get_tag lnk = VAR"
    using that by (auto simp: node_link var_class_def binder_slot_def get_loc_def tag_defs)
  show "node (link mem loc lnk) a = node mem a"
    if "a \<noteq> loc \<and> \<not> (var_class lnk \<and> a = binder_slot lnk)" for a
    using that by (auto simp: node_link)
  show "backptr_ok (link mem loc lnk) loc" if "\<not> (var_class lnk \<and> binder_slot lnk = loc)"
    using that by (auto simp: backptr_ok_def node_link)
  show "backptr_ok (link mem loc lnk) a"
    if "a \<noteq> loc \<and> backptr_ok mem a \<and>
        (var_class (node mem a) \<longrightarrow> binder_slot (node mem a) \<noteq> loc) \<and>
        \<not> (var_class lnk \<and> (a = binder_slot lnk \<or>
             (var_class (node mem a) \<and> binder_slot (node mem a) = binder_slot lnk)))" for a
    using that by (auto simp: backptr_ok_def node_link)
qed

lemma codec_simps:
  "get_tag (Var 1) = VAR" "get_tag (Var 3) = VAR" "get_tag (Var 5) = VAR" "get_tag Era = ERA"
  "get_tag (Arg 0) = ARG" "get_val (Var 1) = 1" "get_val (Var 3) = 3" "get_val (Var 5) = 5"
  by (simp_all add: ctor_defs get_defs tag_defs)

theorem link_backpointer_witness:
  "node (link (worker0 heap_var) 5 (Var 3)) 5 = Var 3 \<and>
   node (link (worker0 heap_var) 5 (Var 3)) 3 = Arg 5 \<and>
   node (link (worker0 heap_var) 5 (Var 3)) 1 = Arg 0 \<and>
   backptr_ok (link (worker0 heap_var) 5 (Var 3)) 5 \<and>
   backptr_ok (link (worker0 heap_var) 5 (Var 3)) 0"
proof -
  have v: "var_class (Var 3)" "binder_slot (Var 3) = 3" "var_class (heap_var 0)"
    "binder_slot (heap_var 0) = 1" "get_tag (Var 3) = VAR" "get_val (Var 3) = 3"
    by (simp_all add: var_class_def binder_slot_def heap_var_def get_loc_def codec_simps tag_defs)
  have b: "backptr_ok (worker0 heap_var) 0"
    by (simp add: backptr_ok_def worker0_def v) (simp add: heap_var_def)
  have n: "node (worker0 heap_var) = heap_var" by (simp add: worker0_def)
  from link_backpointer [of "Var 3" 5 "worker0 heap_var"] have
    f1: "node (link (worker0 heap_var) 5 (Var 3)) 5 = Var 3" and
    f2: "node (link (worker0 heap_var) 5 (Var 3)) 3 = Arg 5" and
    f3: "\<forall>a. a \<noteq> 5 \<and> \<not> (a = 3) \<longrightarrow> node (link (worker0 heap_var) 5 (Var 3)) a = heap_var a" and
    f4: "backptr_ok (link (worker0 heap_var) 5 (Var 3)) 5" and
    f5: "\<forall>a. a \<noteq> 5 \<and> backptr_ok (worker0 heap_var) a \<and>
        (var_class (heap_var a) \<longrightarrow> binder_slot (heap_var a) \<noteq> 5) \<and>
        \<not> (a = 3 \<or> (var_class (heap_var a) \<and> binder_slot (heap_var a) = 3))
        \<longrightarrow> backptr_ok (link (worker0 heap_var) 5 (Var 3)) a"
    by (simp_all add: v n)
  from f3 have g3: "node (link (worker0 heap_var) 5 (Var 3)) 1 = Arg 0"
    by (simp add: heap_var_def)
  from f5 b have g5: "backptr_ok (link (worker0 heap_var) 5 (Var 3)) 0"
    by (simp add: v)
  from f1 f2 g3 f4 g5 show ?thesis by simp
qed

text \<open>Two inputs where the claim as stated fails: a variable link written into its own binder
  slot is overwritten by the back-pointer, and linking a second copy of a variable takes the
  back-pointer away from the first copy.\<close>

theorem link_counterexample:
  "node (link (worker0 heap_var) 5 (Var 5)) 5 \<noteq> Var 5 \<and>
   backptr_ok (worker0 heap_var) 0 \<and> \<not> backptr_ok (link (worker0 heap_var) 5 (Var 1)) 0"
  by (simp add: node_link backptr_ok_def var_class_def binder_slot_def worker0_def heap_var_def
      get_loc_def codec_simps tag_defs) (simp add: ctor_defs tag_defs)

section \<open>Allocation\<close>

lemma MEM_SPACE_val: "MEM_SPACE = 44739242"
  by (simp add: MEM_SPACE_def HEAP_SIZE_def MAX_WORKERS_def)

lemma alloc_zero: "alloc mem 0 = Ok (0, mem)"
  by (simp add: alloc_def)

lemma alloc_total:
  assumes "sz \<noteq> 0" "sz < MAX_ARITY"
  shows "alloc mem sz =
     (if free mem sz \<noteq> [] \<and> last (free mem sz) \<noteq> - 1
      then Ok (last (free mem sz), mem\<lparr>free := (free mem)(sz := butlast (free mem sz))\<rparr>)
      else Ok (tid mem * MEM_SPACE + msize mem,
               mem\<lparr>free := (free mem)(sz := butlast (free mem sz)), msize := msize mem + sz\<rparr>))"
  using assms by (simp add: alloc_def stk_pop_def)

lemma alloc_bump:
  assumes "sz \<noteq> 0" "sz < MAX_ARITY" "free mem sz = []"
  shows "alloc mem sz = Ok (tid mem * MEM_SPACE + msize mem, mem\<lparr>msize := msize mem + sz\<rparr>)"
proof -
  have "(free mem)(sz := []) = free mem" using assms(3) by (metis fun_upd_triv)
  then show ?thesis using assms by (simp add: alloc_def stk_pop_def)
qed

text \<open>The address \<^verbatim>\<open>mem->tid * MEM_SPACE + loc\<close> is computed modulo \<open>2^64\<close>. When the sum wraps,
  the address falls below the partition; when it does not, the block ends inside the
  partition exactly when the frontier plus the size does not exceed \<^verbatim>\<open>MEM_SPACE\<close>.\<close>

lemma bump_partition_iff:
  assumes t: "tid mem < MAX_WORKERS"
  shows "in_partition (tid mem) (tid mem * MEM_SPACE + msize mem) sz \<longleftrightarrow>
         unat (msize mem) + unat sz \<le> unat MEM_SPACE"
proof -
  have m: "unat MEM_SPACE = 44739242" by (simp add: MEM_SPACE_val)
  have tl: "unat (tid mem) < 12" using t by (simp add: MAX_WORKERS_def word_less_nat_alt)
  have p: "unat (tid mem * MEM_SPACE) = unat (tid mem) * 44739242"
    using tl by (simp add: unat_word_ariths m)
  have q: "unat (tid mem * MEM_SPACE + msize mem) =
      (unat (tid mem) * 44739242 + unat (msize mem)) mod 18446744073709551616"
    by (simp add: unat_word_ariths(1) p)
  have b: "unat (msize mem) < 18446744073709551616"
    using unsigned_less [of "msize mem", where ?'a = nat] by simp
  show ?thesis
  proof (cases "unat (tid mem) * 44739242 + unat (msize mem) < 18446744073709551616")
    case True
    then show ?thesis by (simp add: in_partition_def q m)
  next
    case False
    then have "(unat (tid mem) * 44739242 + unat (msize mem)) mod 18446744073709551616
        = unat (tid mem) * 44739242 + unat (msize mem) - 18446744073709551616"
      using tl b by (simp add: mod_if)
    then have "unat (tid mem * MEM_SPACE + msize mem) < unat (tid mem) * 44739242"
      using q b False by simp
    moreover have "\<not> unat (msize mem) + unat sz \<le> 44739242" using False tl by simp
    ultimately show ?thesis by (simp add: in_partition_def m)
  qed
qed

text \<open>Claim C2, as amended. \<^verbatim>\<open>alloc(0)\<close> returns 0. For a size from 1 to \<^verbatim>\<open>MAX_ARITY - 1\<close> (the
  indices of the array of free-lists) \<^verbatim>\<open>alloc\<close> always returns an address: it pops the
  free-list of that size and returns the popped entry when the list is not empty and the
  entry is not the sentinel \<^verbatim>\<open>-1\<close>; otherwise (the list is empty, or its top entry is \<^verbatim>\<open>-1\<close>
  and has been popped) it returns the frontier, offset by \<^verbatim>\<open>tid * MEM_SPACE\<close>, and moves the
  frontier by the size. Nothing is checked: for a worker of the pool the block returned on this path lies
  inside the worker's partition if and only if the frontier plus the size does not exceed
  \<^verbatim>\<open>MEM_SPACE\<close>.\<close>

theorem alloc_no_boundary_check:
  "(sz = 0 \<longrightarrow> alloc mem sz = Ok (0, mem)) \<and>
   (sz \<noteq> 0 \<and> sz < MAX_ARITY \<longrightarrow>
      (\<exists>loc mem'. alloc mem sz = Ok (loc, mem')) \<and>
      (free mem sz \<noteq> [] \<and> last (free mem sz) \<noteq> - 1 \<longrightarrow>
         alloc mem sz =
           Ok (last (free mem sz), mem\<lparr>free := (free mem)(sz := butlast (free mem sz))\<rparr>)) \<and>
      (free mem sz = [] \<or> last (free mem sz) = - 1 \<longrightarrow>
         alloc mem sz =
           Ok (tid mem * MEM_SPACE + msize mem,
               mem\<lparr>free := (free mem)(sz := butlast (free mem sz)), msize := msize mem + sz\<rparr>) \<and>
         (tid mem < MAX_WORKERS \<longrightarrow>
            (\<forall>loc mem'. alloc mem sz = Ok (loc, mem') \<longrightarrow>
               (in_partition (tid mem) loc sz \<longleftrightarrow>
                unat (msize mem) + unat sz \<le> unat MEM_SPACE)))))"
proof (intro conjI impI)
  show "alloc mem sz = Ok (0, mem)" if "sz = 0"
    using that by (simp add: alloc_zero)
next
  assume a: "sz \<noteq> 0 \<and> sz < MAX_ARITY"
  note eq = alloc_total [of sz mem]
  show "\<exists>loc mem'. alloc mem sz = Ok (loc, mem')"
    using a by (simp add: eq)
  show "alloc mem sz =
           Ok (last (free mem sz), mem\<lparr>free := (free mem)(sz := butlast (free mem sz))\<rparr>)"
    if "free mem sz \<noteq> [] \<and> last (free mem sz) \<noteq> - 1"
    using a that by (simp add: eq)
  assume b: "free mem sz = [] \<or> last (free mem sz) = - 1"
  show e: "alloc mem sz =
           Ok (tid mem * MEM_SPACE + msize mem,
               mem\<lparr>free := (free mem)(sz := butlast (free mem sz)), msize := msize mem + sz\<rparr>)"
    using a b by (auto simp: eq)
  show "\<forall>loc mem'. alloc mem sz = Ok (loc, mem') \<longrightarrow>
               (in_partition (tid mem) loc sz \<longleftrightarrow>
                unat (msize mem) + unat sz \<le> unat MEM_SPACE)"
    if "tid mem < MAX_WORKERS"
    using bump_partition_iff [OF that] by (simp add: e)
qed

theorem alloc_no_boundary_check_witness:
  "alloc worker_reuse 0 = Ok (0, worker_reuse) \<and>
   alloc worker_reuse 2 = Ok (9, worker_reuse\<lparr>free := (free worker_reuse)(2 := [7])\<rparr>) \<and>
   (\<exists>mem'. alloc worker_reuse 3 = Ok (40, mem') \<and> msize mem' = 43) \<and>
   in_partition 0 40 3 \<and>
   (\<exists>mem'. alloc worker_sentinel 2 = Ok (40, mem') \<and> msize mem' = 42 \<and> free mem' 2 = [7]) \<and>
   (\<exists>mem'. alloc worker_full 3 = Ok (MEM_SPACE, mem')) \<and> \<not> in_partition 0 MEM_SPACE 3"
proof -
  have a: "alloc worker_reuse 0 = Ok (0, worker_reuse)"
    using alloc_no_boundary_check [of 0 worker_reuse] by simp
  have b: "alloc worker_reuse 2 = Ok (9, worker_reuse\<lparr>free := (free worker_reuse)(2 := [7])\<rparr>)"
    using alloc_no_boundary_check [of 2 worker_reuse]
    by (simp add: worker_reuse_def worker0_def MAX_ARITY_def)
  have c: "(\<exists>mem'. alloc worker_reuse 3 = Ok (40, mem') \<and> msize mem' = 43) \<and> in_partition 0 40 3"
    using alloc_no_boundary_check [of 3 worker_reuse]
    by (simp add: worker_reuse_def worker0_def MAX_ARITY_def MAX_WORKERS_def MEM_SPACE_val)
  have d: "\<exists>mem'. alloc worker_sentinel 2 = Ok (40, mem') \<and> msize mem' = 42 \<and> free mem' 2 = [7]"
    using alloc_no_boundary_check [of 2 worker_sentinel]
    by (simp add: worker_sentinel_def worker0_def MAX_ARITY_def)
  have e: "(\<exists>mem'. alloc worker_full 3 = Ok (MEM_SPACE, mem')) \<and> \<not> in_partition 0 MEM_SPACE 3"
    using alloc_no_boundary_check [of 3 worker_full]
    by (simp add: worker_full_def worker0_def MAX_ARITY_def MAX_WORKERS_def MEM_SPACE_val)
  from a b c d e show ?thesis by simp
qed

text \<open>With the frontier at the end of partition 0, \<^verbatim>\<open>alloc\<close> returns the first address of the
  next partition instead of failing.\<close>

theorem alloc_counterexample:
  "alloc worker_full 3 = Ok (MEM_SPACE, worker_full\<lparr>msize := MEM_SPACE + 3\<rparr>) \<and>
   \<not> MEM_SPACE < (tid worker_full + 1) * MEM_SPACE"
proof -
  have "alloc worker_full 3 = Ok (tid worker_full * MEM_SPACE + msize worker_full,
      worker_full\<lparr>msize := msize worker_full + 3\<rparr>)"
    by (rule alloc_bump) (simp_all add: worker_full_def worker0_def MAX_ARITY_def)
  then show ?thesis by (simp add: worker_full_def worker0_def)
qed

section \<open>Colours\<close>

lemma unat_and_mask_nat: "unat ((w :: 'a::len word) AND mask n) = unat w mod 2 ^ n"
proof -
  have "unat (take_bit n w) = take_bit n (unat w)" by (rule unsigned_take_bit_eq)
  also have "\<dots> = unat w mod 2 ^ n" by (rule take_bit_eq_mod)
  finally show ?thesis by (simp only: take_bit_eq_mask)
qed

lemma mask24: "(0xFFFFFF :: u64) = mask 24"
  by (simp add: mask_eq_exp_minus_1)

lemma dups_after_dupk: "dups (after_dupk k mem) = dups mem + of_nat k"
  by (induction k) (simp_all add: gen_dupk_def)

lemma nth_color_unat: "unat (nth_color mem k) = unat (dups mem + of_nat k) mod 2 ^ 24"
  by (simp add: nth_color_def gen_dupk_def dups_after_dupk mask24 unat_and_mask_nat)

lemma seed_unat:
  assumes "t < MAX_WORKERS"
  shows "unat (dups (worker_init ars fns md ms t)) = (16777216 * unat t) div 12"
proof -
  have tl: "unat t < 12" using assms by (simp add: MAX_WORKERS_def word_less_nat_alt)
  have "unat (MAX_DUPS * t) = 16777216 * unat t"
    using tl by (simp add: MAX_DUPS_def unat_word_ariths)
  then show ?thesis
    by (simp add: worker_init_def MAX_WORKERS_def unat_div)
qed

lemma color_unat:
  assumes t: "t < MAX_WORKERS" and k: "k < 1398101"
  shows "unat (nth_color (worker_init ars fns md ms t) k) = (16777216 * unat t) div 12 + k"
proof -
  let ?w = "worker_init ars fns md ms t"
  have tl: "unat t < 12" using t by (simp add: MAX_WORKERS_def word_less_nat_alt)
  have s: "unat (dups ?w) = (16777216 * unat t) div 12" by (rule seed_unat [OF t])
  have b: "(16777216 * unat t) div 12 + k < 16777216" using tl k by arith
  have kk: "unat (of_nat k :: u64) = k" using k by (simp add: unat_of_nat)
  have "unat (dups ?w + of_nat k) = (16777216 * unat t) div 12 + k"
    using b s kk by (simp add: unat_word_ariths(1))
  then show ?thesis using b by (simp add: nth_color_unat)
qed

text \<open>Claim C8, as amended. Worker \<open>t\<close> of the pool starts its counter at
  \<^verbatim>\<open>MAX_DUPS * t / MAX_WORKERS\<close>, each call of \<^verbatim>\<open>gen_dupk\<close> returns the colour after the previous
  one modulo \<open>2^24\<close>, and the colours of two distinct workers differ as long as each of the two
  has made at most 1398101 calls (the size of the smallest range).\<close>

theorem colors_disjoint_within_budget:
  assumes "t1 < MAX_WORKERS" "t2 < MAX_WORKERS" "t1 \<noteq> t2" "k1 < 1398101" "k2 < 1398101"
  shows "dups (worker_init ars fns md ms t1) = MAX_DUPS * t1 div MAX_WORKERS \<and>
         nth_color (worker_init ars fns md ms t1) (Suc k1) =
           (nth_color (worker_init ars fns md ms t1) k1 + 1) AND 0xFFFFFF \<and>
         nth_color (worker_init ars fns md ms t1) k1 \<noteq> nth_color (worker_init ars' fns' md' ms' t2) k2"
proof (intro conjI)
  show "dups (worker_init ars fns md ms t1) = MAX_DUPS * t1 div MAX_WORKERS"
    by (simp add: worker_init_def)
  show "nth_color (worker_init ars fns md ms t1) (Suc k1) =
           (nth_color (worker_init ars fns md ms t1) k1 + 1) AND 0xFFFFFF"
    by (simp add: nth_color_def gen_dupk_def mask24 mask_eqs)
  have u: "unat t1 \<noteq> unat t2" using assms(3) by (simp add: word_unat_eq_iff)
  have l: "unat t1 < 12" "unat t2 < 12"
    using assms(1,2) by (simp_all add: MAX_WORKERS_def word_less_nat_alt)
  have "(16777216 * unat t1) div 12 + k1 \<noteq> (16777216 * unat t2) div 12 + k2"
    using u l assms(4,5) by arith
  then have "unat (nth_color (worker_init ars fns md ms t1) k1) \<noteq>
             unat (nth_color (worker_init ars' fns' md' ms' t2) k2)"
    using assms by (simp add: color_unat)
  then show "nth_color (worker_init ars fns md ms t1) k1 \<noteq> nth_color (worker_init ars' fns' md' ms' t2) k2"
    by auto
qed

theorem colors_disjoint_within_budget_witness:
  "nth_color (pool_worker 1) 5 \<noteq> nth_color (pool_worker 0) 0 \<and> dups (pool_worker 1) = 1398101"
  using colors_disjoint_within_budget [of 1 0 5 0 "\<lambda>_. 0" 0 "\<lambda>_. Era" 0 "\<lambda>_. 0" 0 "\<lambda>_. Era" 0]
  by (simp add: pool_worker_def MAX_WORKERS_def MAX_DUPS_def)

text \<open>The counter is never checked against the end of its range: call number 1398102 of
  worker 0 returns the first colour of worker 1.\<close>

theorem colors_counterexample:
  "nth_color (pool_worker 0) 1398101 = nth_color (pool_worker 1) 0"
proof -
  have "unat (dups (pool_worker 0) + of_nat 1398101) mod 2 ^ 24 = 1398101"
    by (simp add: pool_worker_def worker_init_def MAX_DUPS_def MAX_WORKERS_def)
  moreover have "unat (dups (pool_worker 1) + of_nat 0) mod 2 ^ 24 = 1398101"
    by (simp add: pool_worker_def worker_init_def MAX_DUPS_def MAX_WORKERS_def)
  ultimately have "unat (nth_color (pool_worker 0) 1398101) = unat (nth_color (pool_worker 1) 0)"
    by (simp only: nth_color_unat)
  then show ?thesis by (simp add: word_unat_eq_iff)
qed

section \<open>OP2-NUM\<close>

lemma unat_mask60: "unat ((w :: u64) AND NUM_MASK) = unat w mod 2 ^ 60"
proof -
  have "unat (take_bit 60 w) = take_bit 60 (unat w)" by (rule unsigned_take_bit_eq)
  then show ?thesis by (simp add: NUM_MASK_mask take_bit_eq_mod flip: take_bit_eq_mask)
qed

lemma mod64_mod60:
  "(x mod 18446744073709551616) mod 1152921504606846976 = (x :: nat) mod 1152921504606846976"
  by (rule mod_mod_cancel) simp

lemma mod64_mod60_int:
  "(x mod 18446744073709551616) mod 1152921504606846976 = (x :: int) mod 1152921504606846976"
  by (rule mod_mod_cancel) simp

lemma op2_add: "unat ((a + b) AND NUM_MASK) = (unat a + unat b) mod 2 ^ 60" for a b :: u64
  by (simp add: unat_mask60 unat_word_ariths mod64_mod60)

lemma op2_mul: "unat ((a * b) AND NUM_MASK) = (unat a * unat b) mod 2 ^ 60" for a b :: u64
  by (simp add: unat_mask60 unat_word_ariths mod64_mod60)

lemma op2_sub: "unat ((a - b) AND NUM_MASK) = nat ((int (unat a) - int (unat b)) mod 2 ^ 60)"
  for a b :: u64
proof -
  have "int (unat ((a - b) AND NUM_MASK)) = int (unat (a - b)) mod 2 ^ 60"
    by (simp add: unat_mask60 zmod_int)
  also have "int (unat (a - b)) = uint (a - b)" by simp
  also have "uint (a - b) = (uint a - uint b) mod 2 ^ 64" by (simp add: uint_word_ariths)
  finally have "int (unat ((a - b) AND NUM_MASK)) = (uint a - uint b) mod 2 ^ 60"
    by (simp add: mod64_mod60_int)
  then show ?thesis by (metis nat_int of_nat_unat)
qed

lemma op2_div: "unat ((a div b) AND NUM_MASK) = (unat a div unat b) mod 2 ^ 60" for a b :: u64
  by (simp add: unat_mask60 unat_div)

lemma op2_mod: "unat ((a mod b) AND NUM_MASK) = (unat a mod unat b) mod 2 ^ 60" for a b :: u64
  by (simp add: unat_mask60 unat_mod)

lemma op2_and: "unat ((a AND b) AND NUM_MASK) = (unat a AND unat b) mod 2 ^ 60" for a b :: u64
proof -
  have "unat ((a AND b) AND NUM_MASK) = unat (a AND b) mod 2 ^ 60" by (rule unat_mask60)
  then show ?thesis by (simp only: unsigned_and_eq)
qed

lemma op2_or: "unat ((a OR b) AND NUM_MASK) = (unat a OR unat b) mod 2 ^ 60" for a b :: u64
proof -
  have "unat ((a OR b) AND NUM_MASK) = unat (a OR b) mod 2 ^ 60" by (rule unat_mask60)
  then show ?thesis by (simp only: unsigned_or_eq)
qed

lemma op2_xor: "unat ((a XOR b) AND NUM_MASK) = (unat a XOR unat b) mod 2 ^ 60" for a b :: u64
proof -
  have "unat ((a XOR b) AND NUM_MASK) = unat (a XOR b) mod 2 ^ 60" by (rule unat_mask60)
  then show ?thesis by (simp only: unsigned_xor_eq)
qed

lemma op2_shl:
  "unat (push_bit (unat b) a AND NUM_MASK) = (unat a * 2 ^ unat b) mod 2 ^ 60" for a b :: u64
proof -
  have "unat (push_bit (unat b) a) = take_bit 64 (push_bit (unat b) (unat a))"
    by (simp add: unsigned_push_bit_eq)
  also have "\<dots> = (unat a * 2 ^ unat b) mod 2 ^ 64"
    by (simp add: take_bit_eq_mod push_bit_eq_mult)
  finally show ?thesis by (simp add: unat_mask60 mod64_mod60)
qed

lemma op2_shr:
  "unat (drop_bit (unat b) a AND NUM_MASK) = (unat a div 2 ^ unat b) mod 2 ^ 60" for a b :: u64
proof -
  have "unat (drop_bit (unat b) a) = drop_bit (unat b) (take_bit 64 (unat a))"
    by (simp add: unsigned_drop_bit_eq)
  also have "take_bit 64 (unat a) = unat a"
    using unsigned_less [of a, where ?'a = nat] by (simp add: take_bit_nat_eq_self)
  finally show ?thesis by (simp add: unat_mask60 drop_bit_eq_div)
qed

lemma op2_value_spec:
  assumes "ope \<in> op_codes"
    and "ope = DIV \<or> ope = MOD \<longrightarrow> b \<noteq> 0"
    and "ope = SHL \<or> ope = SHR \<longrightarrow> b < 64"
  shows "\<exists>c. op2_value ope a b = Ok c \<and> unat c = op2_spec ope (unat a) (unat b)"
proof -
  from assms(1) consider
    "ope = ADD" | "ope = SUB" | "ope = MUL" | "ope = DIV" | "ope = MOD" | "ope = AND_op"
    | "ope = OR_op" | "ope = XOR_op" | "ope = SHL" | "ope = SHR" | "ope = LTN" | "ope = LTE"
    | "ope = EQL" | "ope = GTE" | "ope = GTN" | "ope = NEQ"
    by (auto simp: op_codes_def)
  then show ?thesis
  proof cases
    case 1 then show ?thesis by (simp add: op2_value_def op2_spec_def op_defs op2_add)
  next
    case 2 then show ?thesis by (simp add: op2_value_def op2_spec_def op_defs op2_sub)
  next
    case 3 then show ?thesis by (simp add: op2_value_def op2_spec_def op_defs op2_mul)
  next
    case 4 then show ?thesis using assms(2) by (simp add: op2_value_def op2_spec_def op_defs op2_div)
  next
    case 5 then show ?thesis using assms(2) by (simp add: op2_value_def op2_spec_def op_defs op2_mod)
  next
    case 6 then show ?thesis by (simp add: op2_value_def op2_spec_def op_defs op2_and)
  next
    case 7 then show ?thesis by (simp add: op2_value_def op2_spec_def op_defs op2_or)
  next
    case 8 then show ?thesis by (simp add: op2_value_def op2_spec_def op_defs op2_xor)
  next
    case 9 then show ?thesis using assms(3) by (simp add: op2_value_def op2_spec_def op_defs op2_shl not_le [symmetric])
  next
    case 10 then show ?thesis using assms(3) by (simp add: op2_value_def op2_spec_def op_defs op2_shr not_le [symmetric])
  next
    case 11 then show ?thesis by (simp add: op2_value_def op2_spec_def op_defs word_less_nat_alt)
  next
    case 12 then show ?thesis by (simp add: op2_value_def op2_spec_def op_defs word_le_nat_alt)
  next
    case 13 then show ?thesis by (simp add: op2_value_def op2_spec_def op_defs word_unat_eq_iff [of a b])
  next
    case 14 then show ?thesis by (simp add: op2_value_def op2_spec_def op_defs word_le_nat_alt)
  next
    case 15 then show ?thesis by (simp add: op2_value_def op2_spec_def op_defs word_less_nat_alt)
  next
    case 16 then show ?thesis by (simp add: op2_value_def op2_spec_def op_defs word_unat_eq_iff [of a b])
  qed
qed

lemma reduce_iter_op2_num:
  assumes "init \<noteq> 1"
    and "trm = node mem (ucast host)"
    and "arg0 = node mem (get_loc trm 0)"
    and "arg1 = node mem (get_loc trm 1)"
    and "get_tag trm = OP2"
    and "get_tag arg0 = NUM"
    and "get_tag arg1 = NUM"
  shows "reduce_iter n slen (mem, stack, init, host) =
           bnd (op2_num mem (ucast host) trm arg0 arg1) (\<lambda>mem'. Ok (reduce_pop mem' stack))"
proof -
  have t: "get_tag trm \<noteq> APP" "get_tag trm \<noteq> DP0" "get_tag trm \<noteq> DP1"
    using assms(5) by (simp_all add: tag_defs)
  have "ascend n (mem, stack, init, host) trm =
          bnd (op2_num mem (ucast host) trm arg0 arg1) (\<lambda>mem'. Ok (Break (mem', stack, init, host)))"
    using assms(2-7) t by (simp add: ascend_def ask_arg_def ask_lnk_def)
  then show ?thesis
    using assms(1,2)
    by (cases "op2_num mem (ucast host) trm arg0 arg1") (simp_all add: reduce_iter_def ask_lnk_def)
qed

text \<open>Claim C1, as amended. When \<^verbatim>\<open>reduce\<close> ascends at an \<^verbatim>\<open>OP2\<close> node whose operands are both
  \<^verbatim>\<open>NUM\<close> links with payloads \<open>a\<close> and \<open>b\<close>, one iteration replaces the node by \<^verbatim>\<open>NUM c\<close>, counts one
  rewrite and frees the node, where \<open>c\<close> is the mathematical result modulo \<open>2^60\<close> for the ten
  arithmetic and bitwise operators and 1 or 0 for the six comparisons, provided the divisor
  of \<^verbatim>\<open>DIV\<close> and \<^verbatim>\<open>MOD\<close> is not zero and the shift count of \<^verbatim>\<open>SHL\<close> and \<^verbatim>\<open>SHR\<close> is below 64.\<close>

theorem op2_num_step:
  assumes "init \<noteq> 1"
    and "trm = node mem (ucast host)"
    and "arg0 = node mem (get_loc trm 0)"
    and "arg1 = node mem (get_loc trm 1)"
    and "get_tag trm = OP2"
    and "get_tag arg0 = NUM"
    and "get_tag arg1 = NUM"
    and "get_ext trm \<in> op_codes"
    and "get_ext trm = DIV \<or> get_ext trm = MOD \<longrightarrow> get_num arg1 \<noteq> 0"
    and "get_ext trm = SHL \<or> get_ext trm = SHR \<longrightarrow> get_num arg1 < 64"
  shows "\<exists>c mem'. reduce_iter n slen (mem, stack, init, host) = Ok (reduce_pop mem' stack) \<and>
           node mem' (ucast host) = Num c \<and>
           unat c = op2_spec (get_ext trm) (unat (get_num arg0)) (unat (get_num arg1)) \<and>
           (\<forall>a. a \<noteq> ucast host \<longrightarrow> node mem' a = node mem a) \<and>
           cost mem' = cost mem + 1 \<and>
           free mem' 2 = free mem 2 @ [get_loc trm 0]"
proof -
  obtain c where c: "op2_value (get_ext trm) (get_num arg0) (get_num arg1) = Ok c"
    and u: "unat c = op2_spec (get_ext trm) (unat (get_num arg0)) (unat (get_num arg1))"
    using op2_value_spec [OF assms(8,9,10)] by blast
  define mem' where "mem' = link ((inc_cost mem)\<lparr>free := (free mem)(2 := free mem 2 @ [get_loc trm 0])\<rparr>)
    (ucast host) (Num c)"
  have "op2_num mem (ucast host) trm arg0 arg1 = Ok mem'"
    by (simp add: op2_num_def c clear_def MAX_ARITY_def stk_push_def mem'_def inc_cost_def)
  then have "reduce_iter n slen (mem, stack, init, host) = Ok (reduce_pop mem' stack)"
    by (simp add: reduce_iter_op2_num [OF assms(1-7)])
  moreover have "node mem' (ucast host) = Num c" "\<forall>a. a \<noteq> ucast host \<longrightarrow> node mem' a = node mem a"
    "cost mem' = cost mem + 1" "free mem' 2 = free mem 2 @ [get_loc trm 0]"
    by (simp_all add: mem'_def link_Num inc_cost_def)
  ultimately show ?thesis using u by blast
qed

lemma heap_op2_codec:
  "get_tag (Op2 ADD 1) = OP2" "get_ext (Op2 ADD 1) = ADD" "get_loc (Op2 ADD 1) 0 = 1"
  "get_loc (Op2 ADD 1) 1 = 2" "get_num (Num 3) = 3" "get_num (Num 4) = 4"
  "get_tag (Op2 DIV 1) = OP2" "get_ext (Op2 DIV 1) = DIV" "get_loc (Op2 DIV 1) 0 = 1"
  "get_loc (Op2 DIV 1) 1 = 2" "get_num (Num 7) = 7" "get_num (Num 0) = 0"
  "get_tag (Op2 SHL 1) = OP2" "get_ext (Op2 SHL 1) = SHL" "get_loc (Op2 SHL 1) 0 = 1"
  "get_loc (Op2 SHL 1) 1 = 2" "get_num (Num 1) = 1" "get_num (Num 64) = 64"
  by (simp_all add: ctor_defs get_defs tag_defs op_defs)

theorem op2_num_step_witness:
  "\<exists>c mem'. reduce_iter 0 1 (worker0 heap_add, [], 0, 0) = Ok (reduce_pop mem' []) \<and>
      node mem' 0 = Num c \<and> unat c = 7 \<and> cost mem' = 1 \<and> free mem' 2 = [1]"
proof -
  have "\<exists>c mem'. reduce_iter 0 1 (worker0 heap_add, [], 0, 0) = Ok (reduce_pop mem' []) \<and>
           node mem' (ucast (0::u32)) = Num c \<and>
           unat c = op2_spec (get_ext (Op2 ADD 1)) (unat (get_num (Num 3))) (unat (get_num (Num 4))) \<and>
           (\<forall>a. a \<noteq> ucast (0::u32) \<longrightarrow> node mem' a = node (worker0 heap_add) a) \<and>
           cost mem' = cost (worker0 heap_add) + 1 \<and>
           free mem' 2 = free (worker0 heap_add) 2 @ [get_loc (Op2 ADD 1) 0]"
    by (rule op2_num_step [where trm = "Op2 ADD 1" and ?arg0.0 = "Num 3" and ?arg1.0 = "Num 4"])
      (simp_all add: worker0_def heap_add_def heap_op2_codec get_tag_Num op_codes_def)
  then obtain c mem' where
    "reduce_iter 0 1 (worker0 heap_add, [], 0, 0) = Ok (reduce_pop mem' [])"
    "node mem' 0 = Num c" "unat c = 7" "cost mem' = 1" "free mem' 2 = [1]"
    by (auto simp: heap_op2_codec op2_spec_def worker0_def)
  then show ?thesis by blast
qed

text \<open>Division by zero and a shift by 64 are evaluated by the C operators without a guard;
  neither has a defined result.\<close>

theorem op2_num_counterexample:
  "reduce_iter 0 1 (worker0 heap_div0, [], 0, 0) = Crash DivByZero \<and>
   reduce_iter 0 1 (worker0 heap_shl64, [], 0, 0) = Crash ShiftTooLarge"
proof -
  have "reduce_iter 0 1 (worker0 heap_div0, [], 0, 0) =
      bnd (op2_num (worker0 heap_div0) (ucast (0::u32)) (Op2 DIV 1) (Num 7) (Num 0))
        (\<lambda>mem'. Ok (reduce_pop mem' []))"
    by (rule reduce_iter_op2_num)
      (simp_all add: worker0_def heap_div0_def heap_op2_codec get_tag_Num)
  moreover have "reduce_iter 0 1 (worker0 heap_shl64, [], 0, 0) =
      bnd (op2_num (worker0 heap_shl64) (ucast (0::u32)) (Op2 SHL 1) (Num 1) (Num 64))
        (\<lambda>mem'. Ok (reduce_pop mem' []))"
    by (rule reduce_iter_op2_num)
      (simp_all add: worker0_def heap_shl64_def heap_op2_codec get_tag_Num)
  moreover have "op2_value DIV 7 0 = Crash DivByZero" "op2_value SHL 1 64 = Crash ShiftTooLarge"
    by (simp_all add: op2_value_def op_defs)
  ultimately show ?thesis
    by (simp add: op2_num_def heap_op2_codec)
qed

section \<open>Decoding a command-line token\<close>








section \<open>Readback\<close>

lemma stk_pop_push: "stk_pop (stk_push st v) = (v, st)"
  by (simp add: stk_pop_def stk_push_def)

lemma stk_push_pop: "st \<noteq> [] \<Longrightarrow> stk_push (snd (stk_pop st)) (fst (stk_pop st)) = st"
  by (simp add: stk_pop_def stk_push_def)

lemma readback_term_dirs:
  "readback_term n (chrs, dirs) mem t vars names mcap = Ok (chrs', dirs') \<Longrightarrow> dirs' = dirs"
proof (induction n arbitrary: chrs dirs t chrs' dirs')
  case 0
  then show ?case by simp
next
  case (Suc n)
  note IH = Suc.IH
  note run = Suc.prems
  consider (lam) "get_tag t = LAM" | (app) "get_tag t = APP" | (sup) "get_tag t = SUP_tag"
    | (dup) "get_tag t = DP0 \<or> get_tag t = DP1" | (op2) "get_tag t = OP2" | (num) "get_tag t = NUM"
    | (ctr) "get_tag t = CTR \<or> get_tag t = FUN" | (var) "get_tag t = VAR"
    | (other) "get_tag t \<notin> {LAM, APP, SUP_tag, DP0, DP1, OP2, NUM, CTR, FUN, VAR}"
    by auto
  then show ?case
  proof cases
    case lam
    then show ?thesis using run IH by (auto simp: Let_def)
  next
    case app
    then show ?thesis using run IH
      by (auto simp: tag_defs bnd_eq_Ok) blast
  next
    case sup
    show ?thesis
    proof (cases "dirs (get_ext t) \<noteq> []")
      case True
      from run sup True obtain c d where
        r: "readback_term n (chrs, dirs(get_ext t := snd (stk_pop (dirs (get_ext t))))) mem
              (ask_arg mem t (if fst (stk_pop (dirs (get_ext t))) = 0 then 0 else 1)) vars names mcap
            = Ok (c, d)"
        and e: "dirs' = d(get_ext t := stk_push (d (get_ext t)) (fst (stk_pop (dirs (get_ext t)))))"
        by (auto simp: tag_defs bnd_eq_Ok Let_def split: if_splits prod.splits)
      from IH [OF r] have "d = dirs(get_ext t := snd (stk_pop (dirs (get_ext t))))" .
      then show ?thesis using e True by (simp add: stk_push_pop)
    next
      case False
      then show ?thesis using run IH sup
        by (auto simp: tag_defs bnd_eq_Ok Let_def split: if_splits) blast
    qed
  next
    case dup
    from run dup obtain c d where
      r: "readback_term n (chrs, dirs(get_ext t := stk_push (dirs (get_ext t))
            (if get_tag t = DP0 then 0 else 1))) mem (ask_arg mem t 2) vars names mcap = Ok (c, d)"
      and e: "dirs' = d(get_ext t := snd (stk_pop (d (get_ext t))))"
      by (auto simp: tag_defs bnd_eq_Ok Let_def split: if_splits)
    from IH [OF r] have "d = dirs(get_ext t := stk_push (dirs (get_ext t))
            (if get_tag t = DP0 then 0 else 1))" .
    then show ?thesis using e by (simp add: stk_pop_push)
  next
    case op2
    then show ?thesis using run IH
      by (auto simp: tag_defs bnd_eq_Ok) blast
  next
    case num
    then show ?thesis using run by (auto simp: tag_defs)
  next
    case ctr
    from run ctr obtain c0 c d where
      r: "for_each (indices (ask_ari mem t)) (c0, dirs) (\<lambda>i (chrs, dirs).
            readback_term n (stk_push chrs (chr CHR '' ''), dirs) mem (ask_arg mem t i) vars names mcap)
          = Ok (c, d)" and e: "dirs' = d"
      by (auto simp: tag_defs bnd_eq_Ok Let_def split: if_splits)
    have "snd (c, d) = dirs"
      by (rule for_each_invariant [OF r, where P = "\<lambda>s. snd s = dirs"]) (auto dest: IH)
    then show ?thesis using e by simp
  next
    case var
    then show ?thesis using run by (auto simp: tag_defs)
  next
    case other
    then show ?thesis using run by auto
  qed
qed

text \<open>Claim C3, as amended. At a \<^verbatim>\<open>SUP\<close> node whose colour is below \<^verbatim>\<open>DIRS_MCAP\<close>, the number
  of stacks in \<^verbatim>\<open>dirs\<close>: when the direction stack of the colour is not empty, \<^verbatim>\<open>readback_term\<close>
  prints exactly what the selected child prints (the first argument for a top of 0, the
  second otherwise), the child being printed with the top entry removed, and it leaves every
  direction stack as it was before the node, whatever fans the child contains; when the
  stack is empty it prints \<^verbatim>\<open><\<close>, the first child, a space, the second child and \<^verbatim>\<open>>\<close>.\<close>

theorem readback_sup:
  assumes "get_tag t = SUP_tag" and "get_ext t < DIRS_MCAP"
  shows "(dirs (get_ext t) \<noteq> [] \<longrightarrow>
           (\<forall>chrs' dirs'.
              readback_term n (chrs, dirs(get_ext t := butlast (dirs (get_ext t)))) mem
                (ask_arg mem t (if last (dirs (get_ext t)) = 0 then 0 else 1)) vars names mcap
                = Ok (chrs', dirs')
              \<longrightarrow> readback_term (Suc n) (chrs, dirs) mem t vars names mcap = Ok (chrs', dirs))) \<and>
         (dirs (get_ext t) = [] \<longrightarrow>
           (\<forall>c1 d1 c2 d2.
              readback_term n (chrs @ [chr CHR ''<''], dirs) mem (ask_arg mem t 0) vars names mcap
                = Ok (c1, d1) \<and>
              readback_term n (c1 @ [chr CHR '' ''], d1) mem (ask_arg mem t 1) vars names mcap
                = Ok (c2, d2)
              \<longrightarrow> readback_term (Suc n) (chrs, dirs) mem t vars names mcap
                    = Ok (c2 @ [chr CHR ''>''], dirs)))"
proof (intro conjI impI allI)
  fix chrs' dirs'
  assume ne: "dirs (get_ext t) \<noteq> []"
    and r: "readback_term n (chrs, dirs(get_ext t := butlast (dirs (get_ext t)))) mem
                (ask_arg mem t (if last (dirs (get_ext t)) = 0 then 0 else 1)) vars names mcap
                = Ok (chrs', dirs')"
  have d: "dirs' = dirs(get_ext t := butlast (dirs (get_ext t)))"
    by (rule readback_term_dirs [OF r])
  have t: "get_tag t \<noteq> LAM" "get_tag t \<noteq> APP"
    using assms(1) by (simp_all add: tag_defs)
  have "readback_term (Suc n) (chrs, dirs) mem t vars names mcap =
      Ok (chrs', dirs'(get_ext t := stk_push (dirs' (get_ext t)) (last (dirs (get_ext t)))))"
    using assms t ne r by (simp add: stk_pop_def Let_def)
  also have "dirs'(get_ext t := stk_push (dirs' (get_ext t)) (last (dirs (get_ext t)))) = dirs"
    using ne by (simp add: d stk_push_def)
  finally show "readback_term (Suc n) (chrs, dirs) mem t vars names mcap = Ok (chrs', dirs)" .
next
  fix c1 d1 c2 d2
  assume e: "dirs (get_ext t) = []"
    and r: "readback_term n (chrs @ [chr CHR ''<''], dirs) mem (ask_arg mem t 0) vars names mcap
                = Ok (c1, d1) \<and>
            readback_term n (c1 @ [chr CHR '' ''], d1) mem (ask_arg mem t 1) vars names mcap
                = Ok (c2, d2)"
  have d: "d1 = dirs" "d2 = d1"
    using r readback_term_dirs by blast+
  have t: "get_tag t \<noteq> LAM" "get_tag t \<noteq> APP"
    using assms(1) by (simp_all add: tag_defs)
  show "readback_term (Suc n) (chrs, dirs) mem t vars names mcap = Ok (c2 @ [chr CHR ''>''], dirs)"
    using assms t e r d by (simp add: stk_push_def Let_def)
qed

lemma heap_fan_codec:
  "get_tag (Par 5 1) = SUP_tag" "get_ext (Par 5 1) = 5" "get_loc (Par 5 1) 0 = 1"
  "get_loc (Par 5 1) 1 = 2" "get_num (Num 7) = 7" "get_num (Num 8) = 8" "get_num (Num 42) = 42"
  by (simp_all add: ctor_defs get_defs tag_defs)

lemma readback_decimal_small:
  "readback_decimal chrs 7 = chrs @ [55]" "readback_decimal chrs 8 = chrs @ [56]"
  "readback_decimal chrs 42 = chrs @ [52, 50]"
  by (simp_all add: readback_decimal_def readback_decimal_go.simps [of _ 7]
      readback_decimal_go.simps [of _ 8] readback_decimal_go.simps [of _ 42]
      readback_decimal_go.simps [of _ 4] readback_decimal_go.simps [of _ 0] stk_push_def chr_def)

lemma readback_term_Num:
  "readback_term (Suc n) (chrs, dirs) mem (Num v) vars names mcap =
     Ok (readback_decimal chrs (get_num (Num v)), dirs)"
  by (simp add: get_tag_Num tag_defs)

theorem readback_sup_witness:
  "readback_term (Suc (Suc 0)) ([], (\<lambda>_. [])(5 := [0, 1])) (worker0 heap_fan) (Par 5 1) [] (\<lambda>_. None) 0
     = Ok ([56], (\<lambda>_. [])(5 := [0, 1])) \<and>
   readback_term (Suc (Suc 0)) ([], (\<lambda>_. [])) (worker0 heap_fan) (Par 5 1) [] (\<lambda>_. None) 0
     = Ok ([60, 55, 32, 56, 62], (\<lambda>_. []))"
proof -
  let ?w = "worker0 heap_fan"
  let ?d = "(\<lambda>_. [])(5 := [0, 1 :: u64]) :: u64 \<Rightarrow> Stk"
  let ?e = "(\<lambda>_. []) :: u64 \<Rightarrow> Stk"
  have a: "ask_arg ?w (Par 5 1) 0 = Num 7" "ask_arg ?w (Par 5 1) 1 = Num 8"
    by (simp_all add: ask_arg_def ask_lnk_def worker0_def heap_fan_def heap_fan_codec)
  have c: "get_tag (Par 5 1) = SUP_tag" "get_ext (Par 5 1) < DIRS_MCAP"
    by (simp_all add: heap_fan_codec DIRS_MCAP_def)
  have s: "?d (get_ext (Par 5 1)) \<noteq> []" "last (?d (get_ext (Par 5 1))) = 1"
    "?d(get_ext (Par 5 1) := butlast (?d (get_ext (Par 5 1)))) = (\<lambda>_. [])(5 := [0])"
    "?e (get_ext (Par 5 1)) = []"
    by (simp_all add: heap_fan_codec)
  have k1: "readback_term (Suc 0) ([], (\<lambda>_. [])(5 := [0])) ?w (Num 8) [] (\<lambda>_. None) 0
      = Ok ([56], (\<lambda>_. [])(5 := [0]))"
    by (simp only: readback_term_Num heap_fan_codec readback_decimal_small) simp
  have k2: "readback_term (Suc 0) ([] @ [chr CHR ''<''], ?e) ?w (Num 7) [] (\<lambda>_. None) 0
      = Ok ([60, 55], ?e)"
    by (simp only: readback_term_Num heap_fan_codec readback_decimal_small) (simp add: chr_def)
  have k3: "readback_term (Suc 0) ([60, 55] @ [chr CHR '' ''], ?e) ?w (Num 8) [] (\<lambda>_. None) 0
      = Ok ([60, 55, 32, 56], ?e)"
    by (simp only: readback_term_Num heap_fan_codec readback_decimal_small) (simp add: chr_def)
  have p1: "readback_term (Suc 0) ([], ?d(get_ext (Par 5 1) := butlast (?d (get_ext (Par 5 1))))) ?w
      (ask_arg ?w (Par 5 1) (if last (?d (get_ext (Par 5 1))) = 0 then 0 else 1)) [] (\<lambda>_. None) 0
      = Ok ([56], (\<lambda>_. [])(5 := [0]))"
    unfolding s(2) s(3) by (simp only: a k1 one_neq_zero if_False)
  have p2: "readback_term (Suc 0) ([] @ [chr CHR ''<''], ?e) ?w (ask_arg ?w (Par 5 1) 0) []
        (\<lambda>_. None) 0 = Ok ([60, 55], ?e) \<and>
      readback_term (Suc 0) ([60, 55] @ [chr CHR '' ''], ?e) ?w (ask_arg ?w (Par 5 1) 1) []
        (\<lambda>_. None) 0 = Ok ([60, 55, 32, 56], ?e)"
    by (simp only: a k2 k3)
  from readback_sup [OF c, of ?d "Suc 0" "[]" ?w "[]" "\<lambda>_. None" 0] s(1) p1
  have 1: "readback_term (Suc (Suc 0)) ([], ?d) ?w (Par 5 1) [] (\<lambda>_. None) 0 = Ok ([56], ?d)"
    by blast
  from readback_sup [OF c, of ?e "Suc 0" "[]" ?w "[]" "\<lambda>_. None" 0] s(4) p2
  have 2: "readback_term (Suc (Suc 0)) ([], ?e) ?w (Par 5 1) [] (\<lambda>_. None) 0
      = Ok ([60, 55, 32, 56] @ [chr CHR ''>''], ?e)"
    by blast
  from 1 2 show ?thesis by (simp add: chr_def del: readback_term.simps)
qed

text \<open>\<^verbatim>\<open>dirs\<close> has \<^verbatim>\<open>DIRS_MCAP = 0x10000\<close> stacks and is indexed by the 24-bit colour without a
  check. A fan of colour 1398101 with no direction pushed is not printed as \<^verbatim>\<open><7 8>\<close>: the
  stack looked up lies outside the array.\<close>

theorem readback_sup_counterexample:
  "get_tag (Par 1398101 1) = SUP_tag \<and> get_ext (Par 1398101 1) = 1398101 \<and>
   no_dirs (get_ext (Par 1398101 1)) = [] \<and>
   readback_term (Suc (Suc 0)) ([], no_dirs) (worker0 heap_fan_far) (Par 1398101 1) [] no_names 0
     = Crash IndexOutOfBounds \<and>
   readback (Suc (Suc 0)) (replicate 16 0) 16 (worker0 heap_fan_far) (Par 1398101 1) no_names 0
     = Crash IndexOutOfBounds"
proof -
  have c: "get_tag (Par 1398101 1) = SUP_tag" "get_ext (Par 1398101 1) = 1398101"
    "get_loc (Par 1398101 1) 0 = 1" "get_loc (Par 1398101 1) 1 = 2"
    by (simp_all add: ctor_defs get_defs tag_defs)
  have g: "get_tag (Num 7) \<noteq> LAM" "get_tag (Num 7) \<noteq> APP" "get_tag (Num 7) \<noteq> SUP_tag"
    "get_tag (Num 7) \<noteq> OP2" "get_tag (Num 7) \<noteq> DP0" "get_tag (Num 7) \<noteq> DP1"
    "get_tag (Num 7) \<noteq> CTR" "get_tag (Num 7) \<noteq> FUN"
    "get_tag (Num 8) \<noteq> LAM" "get_tag (Num 8) \<noteq> APP" "get_tag (Num 8) \<noteq> SUP_tag"
    "get_tag (Num 8) \<noteq> OP2" "get_tag (Num 8) \<noteq> DP0" "get_tag (Num 8) \<noteq> DP1"
    "get_tag (Num 8) \<noteq> CTR" "get_tag (Num 8) \<noteq> FUN"
    by (simp_all add: get_tag_Num tag_defs)
  have a: "ask_arg (worker0 heap_fan_far) (Par 1398101 1) 0 = Num 7"
    "ask_arg (worker0 heap_fan_far) (Par 1398101 1) 1 = Num 8"
    by (simp_all add: ask_arg_def ask_lnk_def worker0_def heap_fan_far_def c)
  have t: "readback_term (Suc (Suc 0)) ([], no_dirs) (worker0 heap_fan_far) (Par 1398101 1) []
      no_names 0 = Crash IndexOutOfBounds"
    by (simp add: c tag_defs DIRS_MCAP_def)
  have "get_tag (Num 7) \<noteq> get_tag (Par 1398101 1)" "get_tag (Num 8) \<noteq> get_tag (Par 1398101 1)"
    "get_num (Num 8) \<noteq> get_num (Num 7)"
    by (simp_all add: c get_tag_Num tag_defs heap_fan_codec)
  then have d: "Num 7 \<noteq> Par 1398101 1" "Num 8 \<noteq> Par 1398101 1" "Num 8 \<noteq> Num 7"
    by metis+
  have v7: "readback_vars (Suc 0) ([], [Par 1398101 1]) (worker0 heap_fan_far) (Num 7)
      = Ok ([], [Par 1398101 1, Num 7])"
    using d by (simp add: stk_find_def stk_push_def g)
  have v8: "readback_vars (Suc 0) ([], [Par 1398101 1, Num 7]) (worker0 heap_fan_far) (Num 8)
      = Ok ([], [Par 1398101 1, Num 7, Num 8])"
    using d by (simp add: stk_find_def stk_push_def g)
  have v: "readback_vars (Suc (Suc 0)) ([], []) (worker0 heap_fan_far) (Par 1398101 1)
      = Ok ([], [Par 1398101 1, Num 7, Num 8])"
    by (subst readback_vars.simps(2))
      (simp add: stk_find_def stk_push_def c a v7 v8 tag_defs del: readback_vars.simps)
  have r: "readback (Suc (Suc 0)) (replicate 16 0) 16 (worker0 heap_fan_far) (Par 1398101 1)
      no_names 0 = Crash IndexOutOfBounds"
    using t by (simp add: readback_def stk_init_def v no_dirs_def
        del: readback_vars.simps readback_term.simps)
  show ?thesis using c t r by (simp add: no_dirs_def stk_init_def del: readback_term.simps)
qed

text \<open>Claim C4 fails on the code. For an output of at least \<^verbatim>\<open>code_mcap\<close> characters
  \<^verbatim>\<open>readback\<close> stores the terminating NUL at index \<^verbatim>\<open>code_mcap\<close>, one past the end of a buffer
  of \<^verbatim>\<open>code_mcap\<close> bytes: here the two characters of \<^verbatim>\<open>42\<close> are read back into a buffer of
  capacity 1.\<close>

theorem readback_overflow:
  "readback (Suc 0) [0] 1 (worker0 heap_num) (Num 42) (\<lambda>_. None) 0 = Crash BufferOverflow"
proof -
  have g: "get_tag (Num 42) \<noteq> LAM" "get_tag (Num 42) \<noteq> APP" "get_tag (Num 42) \<noteq> SUP_tag"
    "get_tag (Num 42) \<noteq> OP2" "get_tag (Num 42) \<noteq> DP0" "get_tag (Num 42) \<noteq> DP1"
    "get_tag (Num 42) \<noteq> CTR" "get_tag (Num 42) \<noteq> FUN"
    by (simp_all add: get_tag_Num tag_defs)
  have v: "readback_vars (Suc 0) ([], []) (worker0 heap_num) (Num 42) = Ok ([], [Num 42])"
    by (simp add: stk_find_def stk_push_def g)
  have t: "readback_term (Suc 0) ([], \<lambda>i. []) (worker0 heap_num) (Num 42) [] (\<lambda>_. None) 0
      = Ok ([52, 50], \<lambda>i. [])"
    by (simp only: readback_term_Num heap_fan_codec readback_decimal_small) simp
  have i: "indices 1 = [0]" by (simp add: indices_def)
  show ?thesis
    by (simp add: readback_def stk_init_def v t i store_char_def
        del: readback_vars.simps readback_term.simps)
qed

section \<open>DUP-SUP with equal colours\<close>

lemma link_fields [simp]:
  "cost (link mem loc lnk) = cost mem" "free (link mem loc lnk) = free mem"
  "msize (link mem loc lnk) = msize mem" "dups (link mem loc lnk) = dups mem"
  "aris (link mem loc lnk) = aris mem" "funs (link mem loc lnk) = funs mem"
  "tid (link mem loc lnk) = tid mem"
  by (simp_all add: link_def Let_def)

lemma inc_cost_fields [simp]:
  "node (inc_cost mem) = node mem" "free (inc_cost mem) = free mem" "cost (inc_cost mem) = cost mem + 1"
  by (simp_all add: inc_cost_def)












section \<open>Function ids outside the arity table\<close>

lemma reduce_pop_empty: "reduce_pop mem [] = Return mem"
  by (simp add: reduce_pop_def stk_pop_def)

lemma ask_ari_outside: "funs mem \<le> get_ext trm \<Longrightarrow> ask_ari mem trm = 0"
  by (simp add: ask_ari_def Let_def not_less [symmetric])

lemma fun_descend_arity0:
  "ask_ari mem trm = 0 \<Longrightarrow> fun_descend (mem, stack, init, host) trm = Break (mem, stack, init, host)"
  by (simp add: fun_descend_def Let_def)

lemma reduce_iter_stuck_fun:
  assumes "get_tag trm = FUN" and "ask_ari mem trm = 0" and "node mem (ucast host) = trm"
  shows "reduce_iter n slen (mem, stack, 1, host) = Ok (reduce_pop mem stack)"
proof -
  have t: "get_tag trm \<noteq> APP" "get_tag trm \<noteq> DP0" "get_tag trm \<noteq> DP1" "get_tag trm \<noteq> OP2"
    using assms(1) by (simp_all add: tag_defs)
  have "descend slen (mem, stack, 1, host) trm = Break (mem, stack, 1, host)"
    using assms(1,2) t by (simp add: descend_def fun_descend_arity0)
  then show ?thesis using assms(3) by (simp add: reduce_iter_def ask_lnk_def)
qed

lemma ucast_u32_u64: "(ucast (ucast root :: u32) :: u64) = root" if "root \<le> 0xFFFFFFFF"
  for root :: u64
proof -
  have l: "unat root < 2 ^ 32" using that by (simp add: word_le_nat_alt)
  have "unat (ucast (ucast root :: u32) :: u64) = take_bit 64 (take_bit 32 (unat root))"
    by (simp only: unsigned_ucast_eq len_bit0 len_num1) (simp add: unsigned_take_bit_eq)
  also have "\<dots> = unat root" using l by (simp add: take_bit_nat_eq_self)
  finally show ?thesis by (simp add: word_unat_eq_iff)
qed

lemma reduce_stuck_fun:
  assumes "get_tag trm = FUN" and "ask_ari mem trm = 0" and "node mem root = trm"
    and "root \<le> 0xFFFFFFFF"
  shows "reduce (Suc n) mem root slen = Ok (trm, mem)"
proof -
  have "node mem (ucast (ucast root :: u32)) = trm"
    using assms(3,4) by (simp add: ucast_u32_u64)
  then have "reduce_iter n slen (mem, [], 1, ucast root) = Ok (Return mem)"
    using reduce_iter_stuck_fun [OF assms(1,2)] by (simp add: reduce_pop_empty)
  then show ?thesis using assms(3) by (simp add: reduce_def stk_init_def ask_lnk_def)
qed

lemma load_store:
  "load rt me = Ok mem \<Longrightarrow> load ((store rt me mem')\<lparr>normal_seen_data := bits\<rparr>) me = Ok mem'"
  by (auto simp: load_def store_def split: if_splits)

lemma load_reset: "load (rt\<lparr>normal_seen_data := bits\<rparr>) me = load rt me"
  by (simp add: load_def)

lemma load_node: "load rt me = Ok mem \<Longrightarrow> node mem = shared rt"
  by (auto simp: load_def split: if_splits)

lemma load_cost: "load rt me = Ok mem \<Longrightarrow> map cost ((pool rt)[me := mem]) = map cost (pool rt)"
  by (auto simp: load_def map_update list_update_same_conv split: if_splits)

lemma get_bit_seen_init:
  "drop_bit 6 host < NORMAL_SEEN_MCAP \<Longrightarrow> get_bit_seen normal_init host = Ok 0"
  by (simp add: get_bit_seen_def normal_init_def)

lemma normal_go_stuck_fun:
  assumes l: "load rt me = Ok mem"
    and f: "get_tag trm = FUN" "ask_ari mem trm = 0"
    and h: "shared rt host = trm" "host \<le> 0xFFFFFFFF" "drop_bit 6 host < NORMAL_SEEN_MCAP"
    and b: "get_bit_seen (normal_seen_data rt) host = Ok 0"
  shows "\<exists>bits. normal_go (Suc (Suc n)) rt me host sidx slen
           = Ok (trm, (store rt me mem)\<lparr>normal_seen_data := bits\<rparr>)"
proof -
  have n: "node mem host = trm" using load_node [OF l] h(1) by simp
  have r: "reduce (Suc n) mem host slen = Ok (trm, mem)"
    by (rule reduce_stuck_fun [OF f n h(2)])
  obtain bits where s: "set_bit_seen (normal_seen_data (store rt me mem)) host = Ok bits"
    using h(3) by (simp add: set_bit_seen_def)
  have t: "get_tag trm \<noteq> LAM" "get_tag trm \<noteq> APP" "get_tag trm \<noteq> SUP_tag"
    "get_tag trm \<noteq> DP0" "get_tag trm \<noteq> DP1" "get_tag trm \<noteq> OP2"
    using f(1) by (simp_all add: tag_defs)
  have c: "rec_locs_of mem trm slen = Ok []"
    using f t by (simp add: rec_locs_of_def indices_def)
  have "normal_go (Suc (Suc n)) rt me host sidx slen
           = Ok (trm, (store rt me mem)\<lparr>normal_seen_data := bits\<rparr>)"
    using l n b r s c
    by (simp add: ask_lnk_def indices_def del: reduce_loop.simps)
  then show ?thesis by blast
qed

text \<open>Claim C9. For a link whose id is not below the size of the arity table \<^verbatim>\<open>ask_ari\<close> is 0.
  Where the descent of \<^verbatim>\<open>reduce\<close> meets a \<^verbatim>\<open>FUN\<close> link with such an id, no case of the generated
  switch applies: the iteration leaves the worker as it is and pops the stack. So \<^verbatim>\<open>reduce\<close> at
  a host holding the link returns it with the worker unchanged, and \<^verbatim>\<open>normal\<close> at such a host
  (an address of the heap) returns the link after two passes, with the heap and the cost of
  every worker unchanged, for every fuel from 3 on.\<close>

theorem stuck_fun_outside_arity_table:
  assumes "get_tag trm = FUN" and "funs mem \<le> get_ext trm"
  shows "ask_ari mem trm = 0 \<and>
         (node mem (ucast host) = trm \<longrightarrow>
            reduce_iter n slen (mem, stack, 1, host) = Ok (reduce_pop mem stack)) \<and>
         (node mem root = trm \<and> root \<le> 0xFFFFFFFF \<longrightarrow>
            reduce (Suc n) mem root slen = Ok (trm, mem)) \<and>
         (load rt me = Ok mem \<and> shared rt root = trm \<and> root \<le> 0xFFFFFFFF \<and>
            drop_bit 6 root < NORMAL_SEEN_MCAP \<longrightarrow>
            (\<exists>rt'. normal (Suc (Suc (Suc n))) rt me root sidx slen = Ok (trm, rt') \<and>
                   shared rt' = shared rt \<and> map cost (pool rt') = map cost (pool rt)))"
proof (intro conjI impI)
  show a: "ask_ari mem trm = 0" by (rule ask_ari_outside [OF assms(2)])
  show "reduce_iter n slen (mem, stack, 1, host) = Ok (reduce_pop mem stack)"
    if "node mem (ucast host) = trm"
    by (rule reduce_iter_stuck_fun [OF assms(1) a that])
  show "reduce (Suc n) mem root slen = Ok (trm, mem)"
    if "node mem root = trm \<and> root \<le> 0xFFFFFFFF"
    using that reduce_stuck_fun [OF assms(1) a] by blast
  show "\<exists>rt'. normal (Suc (Suc (Suc n))) rt me root sidx slen = Ok (trm, rt') \<and>
                   shared rt' = shared rt \<and> map cost (pool rt') = map cost (pool rt)"
    if p: "load rt me = Ok mem \<and> shared rt root = trm \<and> root \<le> 0xFFFFFFFF \<and>
            drop_bit 6 root < NORMAL_SEEN_MCAP"
  proof -
    let ?rt0 = "rt\<lparr>normal_seen_data := normal_init\<rparr>"
    have l0: "load ?rt0 me = Ok mem" using p by (simp add: load_reset)
    obtain bits1 where g1: "normal_go (Suc (Suc (Suc n))) ?rt0 me root sidx slen
        = Ok (trm, (store ?rt0 me mem)\<lparr>normal_seen_data := bits1\<rparr>)"
      using normal_go_stuck_fun [OF l0 assms(1) a, of root "Suc n"] p
      by (auto simp: get_bit_seen_init)
    let ?rt1 = "(store ?rt0 me mem)\<lparr>normal_seen_data := bits1\<rparr>"
    have l1: "load ?rt1 me = Ok mem" by (rule load_store [OF l0])
    let ?rt1' = "?rt1\<lparr>normal_seen_data := normal_init\<rparr>"
    have l1': "load ?rt1' me = Ok mem" using l1 by (simp add: load_reset)
    have sh: "shared ?rt1' root = trm" using p load_node [OF l0] by (simp add: store_def)
    obtain bits2 where g2: "normal_go (Suc (Suc n)) ?rt1' me root 0 1
        = Ok (trm, (store ?rt1' me mem)\<lparr>normal_seen_data := bits2\<rparr>)"
      using normal_go_stuck_fun [OF l1' assms(1) a sh, of n] p
      by (auto simp: get_bit_seen_init)
    let ?rt2 = "(store ?rt1' me mem)\<lparr>normal_seen_data := bits2\<rparr>"
    have l2: "load ?rt2 me = Ok mem" by (rule load_store [OF l1'])
    have "normal (Suc (Suc (Suc n))) rt me root sidx slen = Ok (trm, ?rt2)"
      using g1 l1 g2 l2 by (simp add: normal_def del: normal_go.simps)
    moreover have "shared ?rt2 = shared rt" using load_node [OF l0] by (simp add: store_def)
    moreover have "map cost (pool ?rt2) = map cost (pool rt)"
      using load_cost [of rt me mem] p by (simp add: store_def)
    ultimately show ?thesis by blast
  qed
qed

theorem stuck_fun_outside_arity_table_witness:
  "ask_ari stuck_worker (Cal 1 50 1) = 0 \<and>
   reduce (Suc 0) stuck_worker 0 12 = Ok (Cal 1 50 1, stuck_worker) \<and>
   (\<exists>rt'. normal (Suc (Suc (Suc 0))) stuck_rt 0 0 0 12 = Ok (Cal 1 50 1, rt') \<and>
          shared rt' = heap_stuck \<and> map cost (pool rt') = [0])"
proof -
  have c: "get_tag (Cal 1 50 1) = FUN" "funs stuck_worker \<le> get_ext (Cal 1 50 1)"
    by (simp_all add: ctor_defs get_defs tag_defs stuck_worker_def worker_init_def)
  have l: "load stuck_rt 0 = Ok stuck_worker"
    by (simp add: load_def stuck_rt_def stuck_worker_def worker_init_def)
  have h: "node stuck_worker 0 = Cal 1 50 1" "shared stuck_rt 0 = Cal 1 50 1"
    "drop_bit 6 (0::u64) < NORMAL_SEEN_MCAP" "shared stuck_rt = heap_stuck"
    "map cost (pool stuck_rt) = [0]"
    by (simp_all add: stuck_rt_def stuck_worker_def worker_init_def heap_stuck_def
        NORMAL_SEEN_MCAP_def HEAP_SIZE_def)
  from stuck_fun_outside_arity_table [OF c, where host = 0 and root = 0 and rt = stuck_rt
      and me = 0 and n = 0 and slen = 12 and sidx = 0 and stack = "[]"] l h
  show ?thesis by simp
qed

section \<open>Normalising a normal form\<close>

text \<open>Evaluation of the normalizer on a concrete heap: the recursive equations are used only
  at a concrete worker or pool, so that the simplifier follows the execution.\<close>

lemma normal_go_guarded:
  "me < length (pool rt) \<Longrightarrow> normal_go (Suc n) rt me host sidx slen =
     bnd (load rt me) (\<lambda>mem.
     let term = ask_lnk mem host
     in bnd (get_bit_seen (normal_seen_data rt) host) (\<lambda>b.
        if b \<noteq> 0 then Ok (term, rt)
        else
          bnd (reduce n mem host slen) (\<lambda>(term, mem).
          let rt = store rt me mem
          in bnd (set_bit_seen (normal_seen_data rt) host) (\<lambda>bits.
          let rt = rt\<lparr>normal_seen_data := bits\<rparr>
          in bnd (rec_locs_of mem term slen) (\<lambda>rec_locs.
          let rec_size = of_nat (length rec_locs) :: u64
          in if rec_size \<ge> 2 \<and> slen \<ge> rec_size then
               (let space = slen div rec_size
                in bnd (map_each (tl (indices rec_size)) rt (\<lambda>i rt.
                     let work = work_item (sidx + i * space) space (rec_locs ! unat i);
                         wtid = sidx + i * space
                     in normal_go n rt (unat wtid) (work_host work) (work_sidx work)
                          (work_slen work))) (\<lambda>(joined, rt).
                   bnd (normal_go n rt me (rec_locs ! 0) sidx space) (\<lambda>(r0, rt).
                   bnd (link_rt rt me (rec_locs ! 0) r0) (\<lambda>rt.
                   bnd (for_each (tl (indices rec_size)) rt (\<lambda>i rt.
                     link_rt rt me (get_loc term i) (joined ! (unat i - 1)))) (\<lambda>rt.
                   Ok (term, rt))))))
             else
               bnd (for_each (indices rec_size) rt (\<lambda>i rt.
                 bnd (normal_go n rt me (rec_locs ! unat i) sidx slen) (\<lambda>(r, rt).
                 link_rt rt me (rec_locs ! unat i) r))) (\<lambda>rt.
               Ok (term, rt)))))))"
  by simp

lemma normal_loop_guarded:
  "me < length (pool rt) \<Longrightarrow> normal_loop (Suc n) rt me host c =
     bnd (normal_go n (rt\<lparr>normal_seen_data := normal_init\<rparr>) me host 0 1) (\<lambda>(done, rt).
     bnd (load rt me) (\<lambda>mem.
     if cost mem \<noteq> c then normal_loop n rt me host (cost mem)
     else Ok (done, rt)))"
  by simp

lemma reduce_guarded:
  "tid mem < MAX_WORKERS \<Longrightarrow> reduce n mem root slen =
     bnd (reduce_loop n slen (mem, stk_init, 1, ucast root)) (\<lambda>mem'. Ok (ask_lnk mem' root, mem'))"
  by (simp add: reduce_def)

lemma reduce_loop_guarded:
  "reduce_loop (Suc n) slen (mem, stack, init, host) =
     bnd (reduce_iter n slen (mem, stack, init, host)) (\<lambda>r.
       case r of Return mem \<Rightarrow> Ok mem | Next s' \<Rightarrow> reduce_loop n slen s')"
  by simp

lemma indices_small:
  "indices 0 = []" "indices 1 = [0]" "indices 2 = [0, 1]" "indices 3 = [0, 1, 2]"
  "indices 12 = [0, 1, 2, 3, 4, 5, 6, 7, 8, 9, 10, 11]"
proof -
  have l: "[0..<1::nat] = [0]" "[0..<2::nat] = [0, 1]" "[0..<3::nat] = [0, 1, 2]"
    "[0..<12::nat] = [0, 1, 2, 3, 4, 5, 6, 7, 8, 9, 10, 11]"
    by (simp_all add: upt_rec)
  show "indices 0 = []" "indices 1 = [0]" "indices 2 = [0, 1]" "indices 3 = [0, 1, 2]"
    "indices 12 = [0, 1, 2, 3, 4, 5, 6, 7, 8, 9, 10, 11]"
    by (simp_all add: indices_def l)
qed

lemma collect_Num: "get_tag term = NUM \<Longrightarrow> collect (Suc n) mem term = Ok mem"
  by (simp add: tag_defs)

lemmas eval_defs = normal_def load_def store_def link_rt_def rec_locs_of_def indices_small
  get_bit_seen_def set_bit_seen_def normal_init_def NORMAL_SEEN_MCAP_def HEAP_SIZE_def
  MAX_WORKERS_def MAX_ARITY_def worker_init_def stk_init_def stk_push_def stk_pop_def
  reduce_iter_def reduce_pop_def descend_def ascend_def fun_descend_def ask_lnk_def ask_arg_def
  ask_ari_def link_def clear_def inc_cost_def subst_def app_lam_def Let_def
  work_item_def work_host_def work_sidx_def work_slen_def MAX_DUPS_def

lemma nf_codec:
  "get_tag (Lam 1) = LAM" "get_loc (Lam 1) 1 = 2"
  "get_tag (Op2 XOR_op 3) = OP2" "get_ext (Op2 XOR_op 3) = 7"
  "get_loc (Op2 XOR_op 3) 0 = 3" "get_loc (Op2 XOR_op 3) 1 = 4" "get_loc (Op2 XOR_op 3) 2 = 5"
  "get_tag (Var 1) = VAR" "get_loc (Var 1) 0 = 1"
  "get_tag (Num 1) = NUM" "get_tag (Num 5) = NUM" "get_tag (Num 7) = NUM"
  "get_tag (App 6) = APP" "get_loc (App 6) 0 = 6" "get_loc (App 6) 1 = 7"
  "get_tag (Lam 8) = LAM" "get_loc (Lam 8) 0 = 8" "get_loc (Lam 8) 1 = 9"
  "get_tag Era = ERA" "get_tag (Arg 3) = ARG"
  by (simp_all add: ctor_defs get_defs tag_defs op_defs)

lemma fuel12: "(12::nat) = Suc (Suc (Suc (Suc (Suc (Suc (Suc (Suc (Suc (Suc (Suc (Suc 0)))))))))))"
  by simp

text \<open>Claim C7 fails on the code. With budget 1 the \<^verbatim>\<open>OP2\<close> case of \<^verbatim>\<open>normal_go\<close> falls into the
  \<^verbatim>\<open>CTR\<close>/\<^verbatim>\<open>FUN\<close> case, which takes the number of children from the arity table at the operator
  code: for \<^verbatim>\<open>XOR\<close> (code 7) the table of the program says 3, and the word after the operator
  node is normalised as a third child. The graph \<^verbatim>\<open>@x0 (x0 ^ 1)\<close> is a normal form, and on the
  erased heap \<^verbatim>\<open>ffi_normal\<close> reports no rewrite; with the redex \<^verbatim>\<open>((@_ 7) 5)\<close> in the words
  beside it, which no link of the graph refers to, \<^verbatim>\<open>ffi_normal\<close> reports one rewrite and
  leaves 7 at address 5.\<close>

theorem normal_rewrites_beside_normal_form:
  "(\<exists>rt. ffi_normal 12 main_aris 43 heap_nf_clean 10 0 = Ok (0, 10, rt) \<and> shared rt 0 = Lam 1) \<and>
   (\<exists>rt. ffi_normal 12 main_aris 43 heap_nf 10 0 = Ok (1, 10, rt) \<and> shared rt 0 = Lam 1 \<and>
      shared rt 5 = Num 7)"
  unfolding fuel12
  by (simp add: ffi_normal_def normal_go_guarded normal_loop_guarded reduce_guarded reduce_loop_guarded
      eval_defs nf_codec heap_nf_def heap_nf_clean_def tag_defs collect_Num main_aris_def
      word_le_nat_alt word_less_nat_alt
      del: normal_go.simps normal_loop.simps reduce_loop.simps collect.simps)

end
